theory Spec2Isabelle
  imports Main
begin

section \<open>PayosService: payment reconciliation for bus-ticket bookings\<close>

text \<open>
  A shallow embedding of \<^verbatim>\<open>src/payos/payos.service.ts\<close>. The three repositories
  are tables (lists of rows) held in one store, together with the calls the two gateways
  have received. Every call to a collaborator is a place where the service may see an
  exception; which places throw in one invocation is part of the environment of that
  invocation, as are the clock and the random draw.
\<close>

subsection \<open>Entities\<close>

text \<open>
  The entity declarations (\<^verbatim>\<open>../entities/*.entity\<close>) are not part of the
  sources at hand; the service uses the fields below. Identifiers are strings, a
  \<^verbatim>\<open>Date\<close> is its millisecond value, a \<^verbatim>\<open>number\<close> that holds an
  integer is an \<^typ>\<open>int\<close>.
\<close>

type_synonym ident = string
type_synonym date = int

datatype PaymentStatus =
  PaymentStatus_PENDING | PaymentStatus_COMPLETED | PaymentStatus_FAILED | PaymentStatus_CANCELLED

text \<open>
  Modelled from the spec: the enum \<^verbatim>\<open>BookingStatus\<close> of the missing
  \<^verbatim>\<open>booking.entity\<close> (PENDING, PAID, CANCELLED and further values the service never
  writes) and the enum \<^verbatim>\<open>SeatState\<close> of the missing \<^verbatim>\<open>seat-status.entity\<close>.
\<close>

datatype BookingStatus =
  BookingStatus_PENDING | BookingStatus_PAID | BookingStatus_CANCELLED | BookingStatus_OTHER string

datatype SeatState =
  SeatState_AVAILABLE | SeatState_LOCKED | SeatState_RESERVED | SeatState_BOOKED

record Payment =
  payment_id :: ident
  payment_bookingId :: "ident option"
  provider :: string
  transactionRef :: string
  payosOrderCode :: int
  payment_amount :: int
  payment_status :: PaymentStatus

record Booking =
  booking_id :: ident
  booking_status :: BookingStatus
  cancelledAt :: "date option"

record SeatStatus =
  seat_id :: ident
  seatId :: ident
  tripId :: ident
  seat_bookingId :: "ident option"
  seat_state :: SeatState
  lockedUntil :: "date option"

subsection \<open>Gateways\<close>

text \<open>The third argument of \<^verbatim>\<open>notifyBookingStatusChanged\<close>, in its two shapes.\<close>

datatype BookingMeta =
  PaymentCompleted (paymentMethod: string) (transactionId: string)
| PaymentFailed (paymentMethod: string) (transactionId: string) (reason: string)

datatype Notification =
  notifyBookingStatusChanged ident BookingStatus BookingMeta
| notifySeatBooked ident "ident list"
| notifySeatsAvailable ident "ident list"

subsection \<open>Store and environment\<close>

record Store =
  payments :: "Payment list"
  bookings :: "Booking list"
  seatStatuses :: "SeatStatus list"
  emitted :: "Notification list"

text \<open>
  The places of \<^verbatim>\<open>handleWebhook\<close>, \<^verbatim>\<open>cancelPayment\<close> and
  \<^verbatim>\<open>createPaymentLink\<close> where an exception may arise. The first group are the
  calls to repositories and gateways. The second group are the statements of
  \<^verbatim>\<open>handleWebhook\<close> that stand inside its outer \<^verbatim>\<open>try\<close> block but outside
  every inner one (source lines 264, 267, 287, 294, 319, 392/464 and 410/482). The last
  place, \<open>LogCritical\<close>, is the \<^verbatim>\<open>this.logger.error\<close> call of the outer
  \<^verbatim>\<open>catch\<close> handler (line 492): what it throws leaves \<^verbatim>\<open>handleWebhook\<close>. A
  repository call that throws has changed nothing and a gateway call that throws has
  delivered nothing. The log statements inside the inner \<^verbatim>\<open>try\<close> blocks and
  inside their handlers are taken not to throw.
\<close>

datatype Site =
  PaymentFindOne | PaymentUpdate | PaymentSave
| SeatFind | BookingFindOne | BookingUpdate | SeatUpdate
| NotifyBooking | NotifySeats
| LogReceived | LogDetails | LogNotFound | LogFound | LogProcessing
| WarnNoBooking | WarnNoSeats
| LogCritical

datatype Fault = ProviderFault string | Thrown Site

text \<open>Requests to and replies of the payment provider (\<^verbatim>\<open>@payos/node\<close>).\<close>

record PaymentItem =
  item_name :: string
  quantity :: int
  price :: int
  unit :: "string option"
  taxPercentage :: "int option"

record PaymentData =
  pd_orderCode :: int
  pd_amount :: int
  pd_description :: string
  pd_returnUrl :: string
  pd_cancelUrl :: string
  pd_items :: "PaymentItem list"

record CreatePaymentLinkResponse =
  paymentLinkId :: "string option"
  link_checkoutUrl :: "string option"
  link_orderCode :: int
  link_accountNumber :: "string option"
  link_accountName :: "string option"
  link_amount :: int
  link_description :: "string option"
  link_status :: "string option"

record CancelledLink =
  cancelled_id :: "string option"
  cancelled_orderCode :: "int option"
  cancelled_amount :: "int option"
  cancelled_status :: "string option"

text \<open>
  What one invocation meets: the places that throw, \<^verbatim>\<open>Date.now()\<close> (also the value
  of \<^verbatim>\<open>new Date()\<close>), the value of \<^verbatim>\<open>Math.floor(Math.random() * 1000)\<close>, the
  provider's answers, the configured URLs and the identifier the database gives a new
  Payment row.
\<close>

record Env =
  throws :: "Site set"
  now :: date
  random :: nat
  paymentRequests_create :: "PaymentData \<Rightarrow> Fault + CreatePaymentLinkResponse"
  paymentRequests_cancel :: "int \<Rightarrow> Fault + CancelledLink"
  PAYOS_RETURN_URL :: "string option"
  PAYOS_CANCEL_URL :: "string option"
  generatedId :: ident

definition throwsAt :: "Env \<Rightarrow> Site \<Rightarrow> bool" where
  "throwsAt e s = (s \<in> throws e)"

definition unguarded :: "Site set" where
  "unguarded = {LogReceived, LogDetails, LogNotFound, LogFound, LogProcessing,
     WarnNoBooking, WarnNoSeats}"

subsection \<open>Repository operations\<close>

text \<open>
  \<^verbatim>\<open>findOne({ where })\<close> gives the first matching row or \<^verbatim>\<open>null\<close>,
  \<^verbatim>\<open>find({ where })\<close> all matching rows, \<^verbatim>\<open>update(criteria, patch)\<close> patches
  every matching row in place.
\<close>

definition findOne :: "('a \<Rightarrow> bool) \<Rightarrow> 'a list \<Rightarrow> 'a option" where
  "findOne P rows = List.find P rows"

definition findWhere :: "('a \<Rightarrow> bool) \<Rightarrow> 'a list \<Rightarrow> 'a list" where
  "findWhere P rows = filter P rows"

definition updateWhere :: "('a \<Rightarrow> bool) \<Rightarrow> ('a \<Rightarrow> 'a) \<Rightarrow> 'a list \<Rightarrow> 'a list" where
  "updateWhere P patch rows = map (\<lambda>r. if P r then patch r else r) rows"

definition byOrderCode :: "int \<Rightarrow> Payment \<Rightarrow> bool" where
  "byOrderCode oc p = (payosOrderCode p = oc)"

definition byBookingId :: "ident \<Rightarrow> Booking \<Rightarrow> bool" where
  "byBookingId b k = (booking_id k = b)"

definition seatOfBooking :: "ident \<Rightarrow> SeatStatus \<Rightarrow> bool" where
  "seatOfBooking b s = (seat_bookingId s = Some b)"

text \<open>
  \<^verbatim>\<open>if (payment.bookingId)\<close>: \<^verbatim>\<open>null\<close>, \<^verbatim>\<open>undefined\<close> and the empty string
  are falsy.
\<close>

definition bookingRef :: "Payment \<Rightarrow> ident option" where
  "bookingRef p = (case payment_bookingId p of
      None \<Rightarrow> None
    | Some b \<Rightarrow> if b = [] then None else Some b)"

subsection \<open>Numbers as text\<close>

definition digitChar :: "nat \<Rightarrow> char" where
  "digitChar d = char_of (48 + d)"

fun natToString :: "nat \<Rightarrow> string" where
  "natToString n = (if n < 10 then [digitChar n] else natToString (n div 10) @ [digitChar (n mod 10)])"

declare natToString.simps [simp del]

text \<open>\<^verbatim>\<open>Number.prototype.toString\<close> on an integer (below \<open>10\<^sup>2\<^sup>1\<close> in size).\<close>

definition toString :: "int \<Rightarrow> string" where
  "toString i = (if i < 0 then CHR ''-'' # natToString (nat (- i)) else natToString (nat i))"

subsection \<open>handleWebhook\<close>

record WebhookData =
  orderCode :: int
  amount :: int
  description :: string
  code :: string
  desc :: string

record WebhookResponseDto =
  success :: bool
  message :: string

text \<open>
  Lines 376-393 and 447-465: the booking notification is sent when the booking lookup
  gave a row; otherwise a warning is logged, outside every inner \<^verbatim>\<open>try\<close>.
\<close>

definition bookingNotification ::
  "Env \<Rightarrow> Booking option \<Rightarrow> Notification \<Rightarrow> Store \<Rightarrow> Fault option \<times> Store" where
  "bookingNotification e booking n st =
     (case booking of
        Some _ \<Rightarrow>
          (None, if throwsAt e NotifyBooking then st else st\<lparr>emitted := emitted st @ [n]\<rparr>)
      | None \<Rightarrow>
          (if throwsAt e WarnNoBooking then (Some (Thrown WarnNoBooking), st) else (None, st)))"

text \<open>
  Lines 396-411 and 468-483: \<^verbatim>\<open>seatStatuses\<close> is \<^verbatim>\<open>undefined\<close> (here
  \<open>None\<close>) when the fetch at line 324 threw. The notification carries the trip of the
  first row and the seats of all rows.
\<close>

definition seatNotification ::
  "Env \<Rightarrow> SeatStatus list option \<Rightarrow> (ident \<Rightarrow> ident list \<Rightarrow> Notification) \<Rightarrow> Store
     \<Rightarrow> Fault option \<times> Store" where
  "seatNotification e found notify st =
     (case found of
        Some (s # rest) \<Rightarrow>
          (None, if throwsAt e NotifySeats then st
                 else st\<lparr>emitted := emitted st @ [notify (tripId s) (map seatId (s # rest))]\<rparr>)
      | _ \<Rightarrow>
          (if throwsAt e WarnNoSeats then (Some (Thrown WarnNoSeats), st) else (None, st)))"

definition notifyBoth ::
  "Env \<Rightarrow> Booking option \<Rightarrow> Notification \<Rightarrow> SeatStatus list option
     \<Rightarrow> (ident \<Rightarrow> ident list \<Rightarrow> Notification) \<Rightarrow> Store \<Rightarrow> Fault option \<times> Store" where
  "notifyBoth e booking n found notify st =
     (case bookingNotification e booking n st of
        (Some f, st') \<Rightarrow> (Some f, st')
      | (None, st') \<Rightarrow> seatNotification e found notify st')"

text \<open>Lines 345-411, the branch of a successful payment.\<close>

definition markPaid :: "Booking \<Rightarrow> Booking" where
  "markPaid k = k\<lparr>booking_status := BookingStatus_PAID\<rparr>"

definition markBooked :: "SeatStatus \<Rightarrow> SeatStatus" where
  "markBooked s = s\<lparr>seat_state := SeatState_BOOKED, lockedUntil := None\<rparr>"

definition onSuccess ::
  "Env \<Rightarrow> int \<Rightarrow> ident \<Rightarrow> SeatStatus list option \<Rightarrow> Booking option \<Rightarrow> Store
     \<Rightarrow> Fault option \<times> Store" where
  "onSuccess e oc b found booking st =
     (let st1 = (if throwsAt e BookingUpdate then st
                 else st\<lparr>bookings := updateWhere (byBookingId b) markPaid (bookings st)\<rparr>);
          st2 = (if throwsAt e SeatUpdate then st1
                 else st1\<lparr>seatStatuses :=
                        updateWhere (seatOfBooking b) markBooked (seatStatuses st1)\<rparr>)
      in notifyBoth e booking
           (notifyBookingStatusChanged b BookingStatus_PAID
              (PaymentCompleted ''payos'' (toString oc)))
           found notifySeatBooked st2)"

text \<open>Lines 412-484, the branch of a failed payment.\<close>

definition markCancelled :: "date \<Rightarrow> Booking \<Rightarrow> Booking" where
  "markCancelled t k = k\<lparr>booking_status := BookingStatus_CANCELLED, cancelledAt := Some t\<rparr>"

definition release :: "SeatStatus \<Rightarrow> SeatStatus" where
  "release s = s\<lparr>seat_state := SeatState_AVAILABLE, seat_bookingId := None, lockedUntil := None\<rparr>"

definition onFailure ::
  "Env \<Rightarrow> int \<Rightarrow> ident \<Rightarrow> SeatStatus list option \<Rightarrow> Booking option \<Rightarrow> Store
     \<Rightarrow> Fault option \<times> Store" where
  "onFailure e oc b found booking st =
     (let st1 = (if throwsAt e BookingUpdate then st
                 else st\<lparr>bookings :=
                        updateWhere (byBookingId b) (markCancelled (now e)) (bookings st)\<rparr>);
          st2 = (if throwsAt e SeatUpdate then st1
                 else st1\<lparr>seatStatuses :=
                        updateWhere (seatOfBooking b) release (seatStatuses st1)\<rparr>)
      in notifyBoth e booking
           (notifyBookingStatusChanged b BookingStatus_CANCELLED
              (PaymentFailed ''payos'' (toString oc) ''Payment failed''))
           found notifySeatsAvailable st2)"

text \<open>
  Lines 318-485: the two lookups that feed the notifications, then one of the branches.
  A lookup that throws leaves its variable \<^verbatim>\<open>undefined\<close>.
\<close>

definition onBooking :: "Env \<Rightarrow> bool \<Rightarrow> int \<Rightarrow> ident \<Rightarrow> Store \<Rightarrow> Fault option \<times> Store" where
  "onBooking e ok oc b st =
     (if throwsAt e LogProcessing then (Some (Thrown LogProcessing), st)
      else
        let found = (if throwsAt e SeatFind then None
                     else Some (findWhere (seatOfBooking b) (seatStatuses st)));
            booking = (if throwsAt e BookingFindOne then None
                       else findOne (byBookingId b) (bookings st))
        in if ok then onSuccess e oc b found booking st
           else onFailure e oc b found booking st)"

text \<open>
  Lines 259-490, the body of the outer \<^verbatim>\<open>try\<close>: \<open>Inl\<close> is an exception that
  leaves the block, \<open>Inr\<close> a \<^verbatim>\<open>return\<close>. The store is the one reached when the
  block is left.
\<close>

definition setPaymentStatus :: "PaymentStatus \<Rightarrow> Payment \<Rightarrow> Payment" where
  "setPaymentStatus v p = p\<lparr>payment_status := v\<rparr>"

definition handleWebhook_body ::
  "Env \<Rightarrow> WebhookData \<Rightarrow> Store \<Rightarrow> (Fault + WebhookResponseDto) \<times> Store" where
  "handleWebhook_body e webhookData st =
     (let oc = orderCode webhookData;
          ok = (code webhookData = ''00'')
      in
      if throwsAt e LogReceived then (Inl (Thrown LogReceived), st)
      else if throwsAt e LogDetails then (Inl (Thrown LogDetails), st)
      else if throwsAt e PaymentFindOne then
        (Inr \<lparr>success = False, message = ''Database error when fetching payment record''\<rparr>, st)
      else
        (case findOne (byOrderCode oc) (payments st) of
           None \<Rightarrow>
             (if throwsAt e LogNotFound then (Inl (Thrown LogNotFound), st)
              else (Inr \<lparr>success = False, message = ''Payment record not found''\<rparr>, st))
         | Some payment \<Rightarrow>
             (if throwsAt e LogFound then (Inl (Thrown LogFound), st)
              else
                let paymentStatus =
                      (if ok then PaymentStatus_COMPLETED else PaymentStatus_FAILED)
                in
                if throwsAt e PaymentUpdate then
                  (Inr \<lparr>success = False, message = ''Failed to update payment status''\<rparr>, st)
                else
                  let st1 = st\<lparr>payments :=
                              updateWhere (byOrderCode oc) (setPaymentStatus paymentStatus)
                                (payments st)\<rparr>
                  in
                  (case (case bookingRef payment of
                           None \<Rightarrow> (None, st1)
                         | Some b \<Rightarrow> onBooking e ok oc b st1) of
                     (Some f, st2) \<Rightarrow> (Inl f, st2)
                   | (None, st2) \<Rightarrow>
                       (Inr \<lparr>success = True,
                             message = ''Webhook processed successfully''\<rparr>, st2)))))"

text \<open>
  Lines 257-508. The outer \<^verbatim>\<open>catch\<close> handler (lines 491-507) first logs: the
  call \<^verbatim>\<open>this.logger.error\<close> of line 492, whose argument reads the fields of the
  typed \<^verbatim>\<open>webhookData\<close>. When that call throws, its exception replaces the caught
  one and leaves the function; otherwise the handler returns the failure result.
\<close>

definition handleWebhook ::
  "Env \<Rightarrow> WebhookData \<Rightarrow> Store \<Rightarrow> (Fault + WebhookResponseDto) \<times> Store" where
  "handleWebhook e webhookData st =
     (case handleWebhook_body e webhookData st of
        (Inl _, st') \<Rightarrow>
          (if throwsAt e LogCritical then Inl (Thrown LogCritical)
           else Inr \<lparr>success = False, message = ''Failed to process webhook''\<rparr>,
           st')
      | (Inr r, st') \<Rightarrow> (Inr r, st'))"

subsection \<open>generateOrderCode\<close>

text \<open>The remainder of JavaScript takes the sign of the dividend.\<close>

definition jsRem :: "int \<Rightarrow> int \<Rightarrow> int" where
  "jsRem a b = (if a < 0 then - ((- a) mod \<bar>b\<bar>) else a mod \<bar>b\<bar>)"

definition padStart :: "nat \<Rightarrow> char \<Rightarrow> string \<Rightarrow> string" where
  "padStart n c s = replicate (n - length s) c @ s"

definition isDigit :: "char \<Rightarrow> bool" where
  "isDigit c = (48 \<le> (of_char c :: nat) \<and> (of_char c :: nat) \<le> 57)"

definition digitsValue :: "string \<Rightarrow> nat" where
  "digitsValue ds = foldl (\<lambda>acc c. 10 * acc + ((of_char c :: nat) - 48)) 0 ds"

definition parseDigits :: "string \<Rightarrow> int option" where
  "parseDigits s =
     (let ds = takeWhile isDigit s in if ds = [] then None else Some (int (digitsValue ds)))"

text \<open>
  \<^verbatim>\<open>parseInt\<close> in radix 10 on text without leading blanks: an optional sign, then
  the longest run of digits; \<open>None\<close> is \<^verbatim>\<open>NaN\<close>. (The prefix
  \<^verbatim>\<open>0x\<close>, which would select radix 16, does not occur in text made of a sign and
  digits.)
\<close>

definition parseInt :: "string \<Rightarrow> int option" where
  "parseInt s =
     (case s of
        c # rest \<Rightarrow>
          (if c = CHR ''-'' then map_option uminus (parseDigits rest)
           else if c = CHR ''+'' then parseDigits rest
           else parseDigits s)
      | [] \<Rightarrow> None)"

text \<open>
  Lines 510-523. The arguments are the readings of \<^verbatim>\<open>Date.now()\<close> and of
  \<^verbatim>\<open>Math.floor(Math.random() * 1000)\<close>; \<^verbatim>\<open>Math.min\<close> of \<^verbatim>\<open>NaN\<close> is
  \<^verbatim>\<open>NaN\<close>.
\<close>

definition generateOrderCode :: "date \<Rightarrow> nat \<Rightarrow> int option" where
  "generateOrderCode timestamp rnd =
     (let timestampPart = jsRem timestamp 100000;
          orderCode = parseInt (toString timestampPart @ padStart 3 (CHR ''0'') (natToString rnd))
      in map_option (\<lambda>n. min n 2147483647) orderCode)"

subsection \<open>createPaymentLink\<close>

record CreatePaymentDto =
  dto_amount :: int
  dto_description :: string
  dto_returnUrl :: "string option"
  dto_cancelUrl :: "string option"
  dto_items :: "PaymentItem list option"
  dto_bookingId :: "ident option"

record PaymentResponseDto =
  checkoutUrl :: string
  resp_orderCode :: int
  accountNumber :: string
  accountName :: string
  resp_amount :: int
  resp_description :: string
  resp_transactionId :: string
  resp_status :: string
  paymentId :: "ident option"

text \<open>\<^verbatim>\<open>a || b\<close> on optional text and on optional numbers.\<close>

definition orText :: "string option \<Rightarrow> string \<Rightarrow> string" where
  "orText a b = (case a of None \<Rightarrow> b | Some x \<Rightarrow> if x = [] then b else x)"

definition orNumber :: "int option \<Rightarrow> int \<Rightarrow> int" where
  "orNumber a b = (case a of None \<Rightarrow> b | Some x \<Rightarrow> if x = 0 then b else x)"

definition paymentDataOf :: "Env \<Rightarrow> int \<Rightarrow> CreatePaymentDto \<Rightarrow> PaymentData" where
  "paymentDataOf e oc dto =
     \<lparr>pd_orderCode = oc,
      pd_amount = dto_amount dto,
      pd_description = dto_description dto,
      pd_returnUrl = orText (dto_returnUrl dto)
         (orText (PAYOS_RETURN_URL e) ''http://localhost:8000/payment/success''),
      pd_cancelUrl = orText (dto_cancelUrl dto)
         (orText (PAYOS_CANCEL_URL e) ''http://localhost:8000/payment/cancel''),
      pd_items = (case dto_items dto of None \<Rightarrow> [] | Some xs \<Rightarrow> xs)\<rparr>"

text \<open>
  Lines 58-121. The \<^verbatim>\<open>catch\<close> logs and rethrows, so an exception is the result
  \<open>Inl\<close>. The order code is a number for every clock reading and draw; for
  \<^verbatim>\<open>NaN\<close> the model lets the request fail.
\<close>

definition createPaymentLink ::
  "Env \<Rightarrow> CreatePaymentDto \<Rightarrow> Store \<Rightarrow> (Fault + PaymentResponseDto) \<times> Store" where
  "createPaymentLink e dto st =
     (case generateOrderCode (now e) (random e) of
        None \<Rightarrow> (Inl (ProviderFault ''orderCode''), st)
      | Some oc \<Rightarrow>
          (case paymentRequests_create e (paymentDataOf e oc dto) of
             Inl f \<Rightarrow> (Inl f, st)
           | Inr paymentLink \<Rightarrow>
               if throwsAt e PaymentSave then (Inl (Thrown PaymentSave), st)
               else
                 let payment = \<lparr>payment_id = generatedId e,
                                payment_bookingId = dto_bookingId dto,
                                provider = ''PAYOS'',
                                transactionRef = orText (paymentLinkId paymentLink) [],
                                payosOrderCode = oc,
                                payment_amount = dto_amount dto,
                                payment_status = PaymentStatus_PENDING\<rparr>
                 in (Inr \<lparr>checkoutUrl = orText (link_checkoutUrl paymentLink) [],
                           resp_orderCode = link_orderCode paymentLink,
                           accountNumber = orText (link_accountNumber paymentLink) [],
                           accountName = orText (link_accountName paymentLink) [],
                           resp_amount = link_amount paymentLink,
                           resp_description = orText (link_description paymentLink) [],
                           resp_transactionId = orText (paymentLinkId paymentLink) [],
                           resp_status = orText (link_status paymentLink) ''PENDING'',
                           paymentId = Some (payment_id payment)\<rparr>,
                     st\<lparr>payments := payments st @ [payment]\<rparr>)))"

subsection \<open>cancelPayment\<close>

definition cancelResponse :: "CancelledLink \<Rightarrow> int \<Rightarrow> PaymentResponseDto" where
  "cancelResponse cancelledPayment oc =
     \<lparr>checkoutUrl = [],
      resp_orderCode = orNumber (cancelled_orderCode cancelledPayment) oc,
      accountNumber = [],
      accountName = [],
      resp_amount = orNumber (cancelled_amount cancelledPayment) 0,
      resp_description = ''Payment cancelled'',
      resp_transactionId = orText (cancelled_id cancelledPayment) [],
      resp_status = orText (cancelled_status cancelledPayment) ''CANCELLED'',
      paymentId = None\<rparr>"

text \<open>
  Lines 176-220, the cascade to the booking and its seats. There is no inner
  \<^verbatim>\<open>try\<close>: the first call that throws ends the cascade.
\<close>

definition cancelCascade :: "Env \<Rightarrow> ident \<Rightarrow> Store \<Rightarrow> Fault option \<times> Store" where
  "cancelCascade e b st =
     (if throwsAt e BookingUpdate then (Some (Thrown BookingUpdate), st)
      else
        let st1 = st\<lparr>bookings :=
                    updateWhere (byBookingId b) (markCancelled (now e)) (bookings st)\<rparr>
        in
        if throwsAt e SeatFind then (Some (Thrown SeatFind), st1)
        else
          let found = findWhere (seatOfBooking b) (seatStatuses st1) in
          if throwsAt e SeatUpdate then (Some (Thrown SeatUpdate), st1)
          else
            let st2 = st1\<lparr>seatStatuses :=
                        updateWhere (seatOfBooking b) release (seatStatuses st1)\<rparr>
            in
            (case found of
               [] \<Rightarrow> (None, st2)
             | s # rest \<Rightarrow>
                 (if throwsAt e NotifySeats then (Some (Thrown NotifySeats), st2)
                  else (None, st2\<lparr>emitted := emitted st2 @
                                 [notifySeatsAvailable (tripId s) (map seatId (s # rest))]\<rparr>))))"

text \<open>Lines 152-242. The \<^verbatim>\<open>catch\<close> logs and rethrows.\<close>

definition cancelPayment ::
  "Env \<Rightarrow> int \<Rightarrow> Store \<Rightarrow> (Fault + PaymentResponseDto) \<times> Store" where
  "cancelPayment e oc st =
     (case paymentRequests_cancel e oc of
        Inl f \<Rightarrow> (Inl f, st)
      | Inr cancelledPayment \<Rightarrow>
          (if throwsAt e PaymentFindOne then (Inl (Thrown PaymentFindOne), st)
           else
             (case findOne (byOrderCode oc) (payments st) of
                None \<Rightarrow> (Inr (cancelResponse cancelledPayment oc), st)
              | Some payment \<Rightarrow>
                  (if throwsAt e PaymentUpdate then (Inl (Thrown PaymentUpdate), st)
                   else
                     let st1 = st\<lparr>payments :=
                                 updateWhere (byOrderCode oc)
                                   (setPaymentStatus PaymentStatus_CANCELLED) (payments st)\<rparr>
                     in
                     (case (case bookingRef payment of
                              None \<Rightarrow> (None, st1)
                            | Some b \<Rightarrow> cancelCascade e b st1) of
                        (Some f, st2) \<Rightarrow> (Inl f, st2)
                      | (None, st2) \<Rightarrow> (Inr (cancelResponse cancelledPayment oc), st2))))))"

subsection \<open>A worked example\<close>

text \<open>
  The situation of section 8 of the specification: Payment 7 for order code 12345 belongs
  to Booking 42, which holds the locked seats A and B of one trip.
\<close>

definition examplePayment :: Payment where
  "examplePayment =
     \<lparr>payment_id = ''7'', payment_bookingId = Some ''42'', provider = ''PAYOS'',
      transactionRef = ''link-1'', payosOrderCode = 12345, payment_amount = 500000,
      payment_status = PaymentStatus_PENDING\<rparr>"

definition exampleBooking :: Booking where
  "exampleBooking =
     \<lparr>booking_id = ''42'', booking_status = BookingStatus_PENDING, cancelledAt = None\<rparr>"

definition exampleSeat :: "ident \<Rightarrow> ident \<Rightarrow> SeatStatus" where
  "exampleSeat i s =
     \<lparr>seat_id = i, seatId = s, tripId = ''trip-1'', seat_bookingId = Some ''42'',
      seat_state = SeatState_LOCKED, lockedUntil = Some 1762117500000\<rparr>"

definition exampleStore :: Store where
  "exampleStore =
     \<lparr>payments = [examplePayment],
      bookings = [exampleBooking],
      seatStatuses = [exampleSeat ''s1'' ''A'', exampleSeat ''s2'' ''B''],
      emitted = []\<rparr>"

definition successEvent :: WebhookData where
  "successEvent =
     \<lparr>orderCode = 12345, amount = 500000, description = ''ticket'', code = ''00'',
      desc = ''success''\<rparr>"

definition failureEvent :: WebhookData where
  "failureEvent =
     \<lparr>orderCode = 12345, amount = 500000, description = ''ticket'', code = ''01'',
      desc = ''failed''\<rparr>"

definition exampleEnv :: Env where
  "exampleEnv =
     \<lparr>throws = {},
      now = 1762117200123,
      random = 7,
      paymentRequests_create = (\<lambda>_. Inl (ProviderFault ''ECONNRESET'')),
      paymentRequests_cancel = (\<lambda>oc. Inr \<lparr>cancelled_id = Some ''link-1'',
         cancelled_orderCode = Some oc, cancelled_amount = Some 500000,
         cancelled_status = Some ''CANCELLED''\<rparr>),
      PAYOS_RETURN_URL = None,
      PAYOS_CANCEL_URL = None,
      generatedId = ''8''\<rparr>"

definition exampleLink :: CreatePaymentLinkResponse where
  "exampleLink =
     \<lparr>paymentLinkId = Some ''link-2'', link_checkoutUrl = Some ''https://pay.payos.vn/web/link-2'',
      link_orderCode = 123007, link_accountNumber = None, link_accountName = None,
      link_amount = 500000, link_description = Some ''ticket'', link_status = Some ''PENDING''\<rparr>"

definition exampleDto :: CreatePaymentDto where
  "exampleDto =
     \<lparr>dto_amount = 500000, dto_description = ''ticket'', dto_returnUrl = None,
      dto_cancelUrl = None, dto_items = None, dto_bookingId = Some ''42''\<rparr>"

section \<open>Properties\<close>

subsection \<open>Order codes\<close>

lemma of_char_digitChar: "d < 10 \<Longrightarrow> (of_char (digitChar d) :: nat) = 48 + d"
  by (simp add: digitChar_def)

lemma isDigit_digitChar: "d < 10 \<Longrightarrow> isDigit (digitChar d)"
  by (simp add: isDigit_def of_char_digitChar)

lemma natToString_digits: "\<forall>c \<in> set (natToString n). isDigit c"
proof (induction n rule: natToString.induct)
  case (1 n)
  show ?case
  proof (cases "n < 10")
    case True
    then show ?thesis by (simp add: natToString.simps [of n] isDigit_digitChar)
  next
    case False
    with 1 show ?thesis by (simp add: natToString.simps [of n] isDigit_digitChar)
  qed
qed

lemma natToString_nonempty: "natToString n \<noteq> []"
  by (subst natToString.simps) simp

lemma digitsValue_snoc: "digitsValue (xs @ [c]) = 10 * digitsValue xs + ((of_char c :: nat) - 48)"
  by (simp add: digitsValue_def)

lemma digitsValue_natToString: "digitsValue (natToString n) = n"
proof (induction n rule: natToString.induct)
  case (1 n)
  show ?case
  proof (cases "n < 10")
    case True
    then show ?thesis
      by (simp add: natToString.simps [of n] digitsValue_def of_char_digitChar)
  next
    case False
    with 1 show ?thesis
      by (simp add: natToString.simps [of n] digitsValue_snoc of_char_digitChar)
  qed
qed

lemma digitsValue_append:
  "digitsValue (xs @ ys) = digitsValue xs * 10 ^ length ys + digitsValue ys"
proof (induction ys rule: rev_induct)
  case Nil
  show ?case by (simp add: digitsValue_def)
next
  case (snoc c ys)
  have "digitsValue (xs @ ys @ [c]) = 10 * digitsValue (xs @ ys) + ((of_char c :: nat) - 48)"
    using digitsValue_snoc [of "xs @ ys" c] by simp
  with snoc show ?case by (simp add: digitsValue_snoc algebra_simps)
qed

lemma digitsValue_zeros: "digitsValue (replicate k (CHR ''0'') @ s) = digitsValue s"
proof -
  have "digitsValue (replicate k (CHR ''0'')) = 0"
    by (induction k) (simp_all add: digitsValue_def)
  then show ?thesis by (simp add: digitsValue_append)
qed

lemma length_natToString_10: "n < 10 \<Longrightarrow> length (natToString n) = 1"
  by (simp add: natToString.simps [of n])

lemma length_natToString_100: "n < 100 \<Longrightarrow> length (natToString n) \<le> 2"
  using length_natToString_10 [of "n div 10"]
  by (cases "n < 10") (simp_all add: natToString.simps [of n])

lemma length_natToString_1000: "n < 1000 \<Longrightarrow> length (natToString n) \<le> 3"
  using length_natToString_100 [of "n div 10"]
  by (cases "n < 10") (simp_all add: natToString.simps [of n])

lemma padStart_suffix:
  assumes "r < 1000"
  shows "length (padStart 3 (CHR ''0'') (natToString r)) = 3"
    and "digitsValue (padStart 3 (CHR ''0'') (natToString r)) = r"
    and "\<forall>c \<in> set (padStart 3 (CHR ''0'') (natToString r)). isDigit c"
  using assms length_natToString_1000 [of r] natToString_digits [of r]
  by (auto simp: padStart_def digitsValue_zeros digitsValue_natToString isDigit_def)

lemma parseDigits_all:
  assumes "\<forall>c \<in> set s. isDigit c" and "s \<noteq> []"
  shows "parseDigits s = Some (int (digitsValue s))"
proof -
  from assms(1) have tw: "takeWhile isDigit s = s" by (simp add: takeWhile_eq_all_conv)
  show ?thesis unfolding parseDigits_def Let_def tw using assms(2) by simp
qed

lemma parseInt_digits:
  assumes "\<forall>c \<in> set s. isDigit c" and "s \<noteq> []"
  shows "parseInt s = Some (int (digitsValue s))"
proof -
  from assms obtain c rest where s: "s = c # rest" by (cases s) auto
  with assms(1) have "isDigit c" by simp
  then have "c \<noteq> CHR ''-''" and "c \<noteq> CHR ''+''" by (auto simp: isDigit_def)
  with s parseDigits_all [OF assms] show ?thesis by (simp add: parseInt_def)
qed

lemma orderCode_text:
  assumes "r < 1000"
  shows "parseInt (natToString a @ padStart 3 (CHR ''0'') (natToString r)) = Some (int (a * 1000 + r))"
proof -
  let ?s = "natToString a @ padStart 3 (CHR ''0'') (natToString r)"
  have d: "\<forall>c \<in> set ?s. isDigit c"
    using natToString_digits [of a] padStart_suffix(3) [OF assms] by auto
  have n: "?s \<noteq> []" by (simp add: natToString_nonempty)
  have "digitsValue ?s = a * 1000 + r"
    by (simp add: digitsValue_append padStart_suffix [OF assms] digitsValue_natToString)
  with parseInt_digits [OF d n] show ?thesis by simp
qed

lemma generateOrderCode_value:
  assumes "0 \<le> t" and "r < 1000"
  shows "generateOrderCode t r = Some ((t mod 100000) * 1000 + int r)"
proof -
  define a where "a = nat (t mod 100000)"
  have part: "jsRem t 100000 = int a"
    using assms(1) by (simp add: jsRem_def a_def)
  have "a < 100000" by (simp add: a_def nat_less_iff)
  with assms(2) have "int (a * 1000 + r) \<le> 2147483647" by simp
  with orderCode_text [OF assms(2), of a]
  have "generateOrderCode t r = Some (int (a * 1000 + r))"
    by (simp add: generateOrderCode_def part toString_def Let_def)
  then show ?thesis by (simp add: a_def)
qed

lemma parseInt_sign:
  assumes "\<forall>c \<in> set s. isDigit c" and "s \<noteq> []"
  shows "parseInt (CHR ''-'' # s) = Some (- int (digitsValue s))"
  using parseDigits_all [OF assms] by (simp add: parseInt_def)

lemma generateOrderCode_number: "generateOrderCode t r \<noteq> None"
proof -
  let ?p = "padStart 3 (CHR ''0'') (natToString r)"
  have p: "\<forall>c \<in> set ?p. isDigit c"
    using natToString_digits [of r] by (auto simp: padStart_def isDigit_def)
  have d: "\<forall>c \<in> set (natToString a @ ?p). isDigit c" for a
    using natToString_digits [of a] p by auto
  have n: "natToString a @ ?p \<noteq> []" for a by (simp add: natToString_nonempty)
  show ?thesis
    using parseInt_digits [OF d n] parseInt_sign [OF d n]
    by (simp add: generateOrderCode_def toString_def Let_def)
qed

text \<open>
  C9. When the clock does not stand before the epoch and the draw is one of 0..999 (what
  \<^verbatim>\<open>Math.floor(Math.random() * 1000)\<close> gives), \<open>generateOrderCode\<close> returns a number
  in \<open>[0, 2147483647]\<close>: the timestamp modulo 100000 written in decimal, followed by the
  draw padded with zeros to three digits, read as an integer and capped at 2147483647;
  its value is the low part of the timestamp times 1000 plus the draw.
\<close>

theorem generateOrderCode_in_range:
  assumes "0 \<le> t" and "r < 1000"
  shows "generateOrderCode t r = Some ((t mod 100000) * 1000 + int r)
       \<and> 0 \<le> (t mod 100000) * 1000 + int r
       \<and> (t mod 100000) * 1000 + int r \<le> 2147483647
       \<and> generateOrderCode t r =
           map_option (\<lambda>n. min n 2147483647)
             (parseInt (natToString (nat (t mod 100000))
                @ padStart 3 (CHR ''0'') (natToString r)))"
proof -
  have "t mod 100000 < 100000" by simp
  with assms(2) have hi: "(t mod 100000) * 1000 + int r \<le> 2147483647" by simp
  have lo: "0 \<le> (t mod 100000) * 1000 + int r" by simp
  have alg: "generateOrderCode t r =
      map_option (\<lambda>n. min n 2147483647)
        (parseInt (natToString (nat (t mod 100000))
           @ padStart 3 (CHR ''0'') (natToString r)))"
  proof -
    have "int (nat (t mod 100000) * 1000 + r) = (t mod 100000) * 1000 + int r" by simp
    with orderCode_text [OF assms(2), of "nat (t mod 100000)"] hi
    have "map_option (\<lambda>n. min n 2147483647)
        (parseInt (natToString (nat (t mod 100000))
           @ padStart 3 (CHR ''0'') (natToString r))) = Some ((t mod 100000) * 1000 + int r)"
      by (simp only: option.map min_def if_True)
    then show ?thesis by (simp only: generateOrderCode_value [OF assms])
  qed
  from generateOrderCode_value [OF assms] hi lo alg show ?thesis by blast
qed

theorem generateOrderCode_in_range_witness:
  "(0::int) \<le> 1762117200123 \<and> (7::nat) < 1000
     \<and> generateOrderCode 1762117200123 7 = Some 123007"
  using generateOrderCode_in_range [of 1762117200123 7] by simp

subsection \<open>Repository operations\<close>

lemma length_updateWhere: "length (updateWhere P f rows) = length rows"
  by (simp add: updateWhere_def)

lemma findOne_updateWhere:
  assumes "\<And>r. P r \<Longrightarrow> P (f r)"
  shows "findOne P (updateWhere P f rows) = map_option f (findOne P rows)"
  using assms by (induction rows) (simp_all add: findOne_def updateWhere_def)

lemma updateWhere_again:
  assumes "\<And>r. P r \<Longrightarrow> P (f r) \<Longrightarrow> g (f r) = h r"
    and "\<And>r. P r \<Longrightarrow> \<not> P (f r) \<Longrightarrow> f r = h r"
  shows "updateWhere P g (updateWhere P f rows) = updateWhere P h rows"
  using assms by (induction rows) (auto simp: updateWhere_def)

lemmas branch_defs = onBooking_def onSuccess_def onFailure_def notifyBoth_def
  bookingNotification_def seatNotification_def

lemma handleWebhook_success_run:
  assumes "code w = ''00''"
    and "findOne (byOrderCode (orderCode w)) (payments st) = Some p"
    and "bookingRef p = Some b"
    and "throws e = {}"
  shows "handleWebhook e w st =
    (Inr \<lparr>success = True, message = ''Webhook processed successfully''\<rparr>,
     st\<lparr>payments := updateWhere (byOrderCode (orderCode w))
                       (setPaymentStatus PaymentStatus_COMPLETED) (payments st),
        bookings := updateWhere (byBookingId b) markPaid (bookings st),
        seatStatuses := updateWhere (seatOfBooking b) markBooked (seatStatuses st),
        emitted := emitted st
          @ (case findOne (byBookingId b) (bookings st) of
               None \<Rightarrow> []
             | Some _ \<Rightarrow> [notifyBookingStatusChanged b BookingStatus_PAID
                           (PaymentCompleted ''payos'' (toString (orderCode w)))])
          @ (case findWhere (seatOfBooking b) (seatStatuses st) of
               [] \<Rightarrow> []
             | s # rest \<Rightarrow> [notifySeatBooked (tripId s) (map seatId (s # rest))])\<rparr>)"
  using assms
  by (simp add: handleWebhook_def handleWebhook_body_def branch_defs throwsAt_def Let_def
      split: option.split list.split)


lemma bookingRef_setPaymentStatus [simp]: "bookingRef (setPaymentStatus v p) = bookingRef p"
  by (simp add: bookingRef_def setPaymentStatus_def)

lemma findOne_payment_updated:
  "findOne (byOrderCode oc) (updateWhere (byOrderCode oc) (setPaymentStatus v) rows)
     = map_option (setPaymentStatus v) (findOne (byOrderCode oc) rows)"
  by (rule findOne_updateWhere) (simp add: byOrderCode_def setPaymentStatus_def)

lemma payments_updated_twice:
  "updateWhere (byOrderCode oc) (setPaymentStatus v)
     (updateWhere (byOrderCode oc) (setPaymentStatus v) rows)
   = updateWhere (byOrderCode oc) (setPaymentStatus v) rows"
  by (rule updateWhere_again) (simp_all add: setPaymentStatus_def)


lemma handleWebhook_untouched:
  assumes "throws e \<inter> {LogReceived, LogDetails, PaymentFindOne, LogFound, PaymentUpdate} \<noteq> {}
      \<or> findOne (byOrderCode (orderCode w)) (payments st) = None"
  shows "snd (handleWebhook e w st) = st"
  using assms
  by (auto simp: handleWebhook_def handleWebhook_body_def throwsAt_def Let_def
      split: option.split)

lemma handleWebhook_recorded_only:
  assumes "throws e \<inter> {LogReceived, LogDetails, PaymentFindOne, LogFound, PaymentUpdate} = {}"
    and "findOne (byOrderCode (orderCode w)) (payments st) = Some p"
    and "bookingRef p = None \<or> LogProcessing \<in> throws e"
  shows "snd (handleWebhook e w st) =
     st\<lparr>payments := updateWhere (byOrderCode (orderCode w))
        (setPaymentStatus (if code w = ''00'' then PaymentStatus_COMPLETED else PaymentStatus_FAILED))
        (payments st)\<rparr>"
  using assms
  by (auto simp: handleWebhook_def handleWebhook_body_def onBooking_def throwsAt_def Let_def
      split: option.split)

lemma notifyBoth_frame:
  "payments (snd (notifyBoth e booking n found notify st)) = payments st"
  "bookings (snd (notifyBoth e booking n found notify st)) = bookings st"
  "seatStatuses (snd (notifyBoth e booking n found notify st)) = seatStatuses st"
  by (simp_all add: notifyBoth_def bookingNotification_def seatNotification_def
      split: option.split list.split)

lemma onBooking_tables:
  assumes "LogProcessing \<notin> throws e"
  shows "payments (snd (onBooking e ok oc b st)) = payments st"
    and "bookings (snd (onBooking e ok oc b st)) =
      (if BookingUpdate \<in> throws e then bookings st
       else updateWhere (byBookingId b) (if ok then markPaid else markCancelled (now e))
              (bookings st))"
    and "seatStatuses (snd (onBooking e ok oc b st)) =
      (if SeatUpdate \<in> throws e then seatStatuses st
       else updateWhere (seatOfBooking b) (if ok then markBooked else release)
              (seatStatuses st))"
  using assms
  by (simp_all add: onBooking_def onSuccess_def onFailure_def notifyBoth_frame throwsAt_def
      Let_def)

lemma handleWebhook_cascade_store:
  assumes "throws e \<inter> {LogReceived, LogDetails, PaymentFindOne, LogFound, PaymentUpdate} = {}"
    and "findOne (byOrderCode (orderCode w)) (payments st) = Some p"
    and "bookingRef p = Some b"
  shows "snd (handleWebhook e w st) =
     snd (onBooking e (code w = ''00'') (orderCode w) b
       (st\<lparr>payments := updateWhere (byOrderCode (orderCode w))
        (setPaymentStatus (if code w = ''00'' then PaymentStatus_COMPLETED else PaymentStatus_FAILED))
        (payments st)\<rparr>))"
  using assms
  by (simp add: handleWebhook_def handleWebhook_body_def throwsAt_def Let_def
      split: option.split prod.split)


lemma example_lookup:
  "findOne (byOrderCode (orderCode successEvent)) (payments exampleStore) = Some examplePayment"
  "findOne (byOrderCode (orderCode failureEvent)) (payments exampleStore) = Some examplePayment"
  "findOne (byOrderCode 12345) (payments exampleStore) = Some examplePayment"
  "bookingRef examplePayment = Some ''42''"
  by (simp_all add: findOne_def byOrderCode_def exampleStore_def examplePayment_def
      successEvent_def failureEvent_def bookingRef_def)

lemmas example_defs = exampleStore_def examplePayment_def exampleBooking_def exampleSeat_def
  successEvent_def failureEvent_def exampleEnv_def

lemmas table_defs = findOne_def findWhere_def updateWhere_def byOrderCode_def byBookingId_def
  seatOfBooking_def setPaymentStatus_def markPaid_def markBooked_def markCancelled_def
  release_def

subsection \<open>Deliveries for an unknown order code\<close>

text \<open>
  C4. When no Payment row has the order code of the event, \<open>handleWebhook\<close> leaves the
  whole store as it was (no Payment, Booking or SeatStatus row changes and no
  notification is sent) and never returns \<open>success = True\<close>; it returns
  \<open>success = False\<close> unless the log call of the outer handler throws, and when the
  lookup and the log statements before the return do not throw, the message is "Payment
  record not found".
\<close>

theorem webhook_without_payment_is_noop:
  assumes "findOne (byOrderCode (orderCode w)) (payments st) = None"
  shows "snd (handleWebhook e w st) = st
       \<and> (\<forall>r. fst (handleWebhook e w st) = Inr r \<longrightarrow> success r = False)
       \<and> (LogCritical \<notin> throws e \<longrightarrow>
            (\<exists>m. fst (handleWebhook e w st) = Inr \<lparr>success = False, message = m\<rparr>))
       \<and> (throws e \<inter> {LogReceived, LogDetails, PaymentFindOne, LogNotFound} = {} \<longrightarrow>
            fst (handleWebhook e w st)
              = Inr \<lparr>success = False, message = ''Payment record not found''\<rparr>)"
  using assms
  by (auto simp: handleWebhook_def handleWebhook_body_def throwsAt_def Let_def)

theorem webhook_without_payment_is_noop_witness:
  "findOne (byOrderCode (orderCode (successEvent\<lparr>orderCode := 999\<rparr>))) (payments exampleStore) = None
   \<and> LogCritical \<notin> throws exampleEnv
   \<and> throws exampleEnv \<inter> {LogReceived, LogDetails, PaymentFindOne, LogNotFound} = {}
   \<and> handleWebhook exampleEnv (successEvent\<lparr>orderCode := 999\<rparr>) exampleStore
      = (Inr \<lparr>success = False, message = ''Payment record not found''\<rparr>, exampleStore)"
proof -
  have h: "findOne (byOrderCode (orderCode (successEvent\<lparr>orderCode := 999\<rparr>)))
      (payments exampleStore) = None"
    by (simp add: findOne_def byOrderCode_def example_defs)
  have t: "throws exampleEnv \<inter> {LogReceived, LogDetails, PaymentFindOne, LogNotFound} = {}"
    "LogCritical \<notin> throws exampleEnv"
    by (simp_all add: exampleEnv_def)
  from webhook_without_payment_is_noop [OF h, of exampleEnv] t h show ?thesis
    by (simp add: prod_eq_iff)
qed

subsection \<open>Successful payments\<close>

lemma updateWhere_matching:
  assumes "\<And>r. Q (f r)"
  shows "\<forall>x \<in> set (updateWhere P f rows). P x \<longrightarrow> Q x"
  using assms by (auto simp: updateWhere_def)

text \<open>
  C1. A delivery with code "00" whose order code is that of a Payment with a Booking
  reference, when nothing throws: the result is \<open>success = True\<close>, the Payment is
  COMPLETED, the Booking is PAID, every SeatStatus row that references the Booking is
  BOOKED with its lock expiry cleared, and the delivery adds to the notifications one
  \<open>notifyBookingStatusChanged\<close> (PAID) if the Booking row was found and then one
  \<open>notifySeatBooked\<close>, for the trip of the first row and the seats of all rows, if at
  least one SeatStatus row references the Booking; without such a row no seat
  notification is sent.
\<close>

theorem success_webhook_outcome:
  assumes "code w = ''00''"
    and "findOne (byOrderCode (orderCode w)) (payments st) = Some p"
    and "bookingRef p = Some b"
    and "throws e = {}"
  shows "fst (handleWebhook e w st)
           = Inr \<lparr>success = True, message = ''Webhook processed successfully''\<rparr>
       \<and> findOne (byOrderCode (orderCode w)) (payments (snd (handleWebhook e w st)))
           = Some (p\<lparr>payment_status := PaymentStatus_COMPLETED\<rparr>)
       \<and> (\<forall>q \<in> set (payments (snd (handleWebhook e w st))).
             payosOrderCode q = orderCode w \<longrightarrow> payment_status q = PaymentStatus_COMPLETED)
       \<and> (\<forall>k \<in> set (bookings (snd (handleWebhook e w st))).
             booking_id k = b \<longrightarrow> booking_status k = BookingStatus_PAID)
       \<and> (\<forall>s \<in> set (seatStatuses (snd (handleWebhook e w st))).
             seat_bookingId s = Some b \<longrightarrow>
               seat_state s = SeatState_BOOKED \<and> lockedUntil s = None)
       \<and> emitted (snd (handleWebhook e w st)) = emitted st
           @ (case findOne (byBookingId b) (bookings st) of
                None \<Rightarrow> []
              | Some _ \<Rightarrow> [notifyBookingStatusChanged b BookingStatus_PAID
                            (PaymentCompleted ''payos'' (toString (orderCode w)))])
           @ (case findWhere (seatOfBooking b) (seatStatuses st) of
                [] \<Rightarrow> []
              | s # rest \<Rightarrow> [notifySeatBooked (tripId s) (map seatId (s # rest))])"
proof -
  note run = handleWebhook_success_run [OF assms]
  have P: "payments (snd (handleWebhook e w st)) = updateWhere (byOrderCode (orderCode w))
      (setPaymentStatus PaymentStatus_COMPLETED) (payments st)"
    and B: "bookings (snd (handleWebhook e w st)) = updateWhere (byBookingId b) markPaid (bookings st)"
    and S: "seatStatuses (snd (handleWebhook e w st))
      = updateWhere (seatOfBooking b) markBooked (seatStatuses st)"
    and E: "emitted (snd (handleWebhook e w st)) = emitted st
           @ (case findOne (byBookingId b) (bookings st) of
                None \<Rightarrow> []
              | Some _ \<Rightarrow> [notifyBookingStatusChanged b BookingStatus_PAID
                            (PaymentCompleted ''payos'' (toString (orderCode w)))])
           @ (case findWhere (seatOfBooking b) (seatStatuses st) of
                [] \<Rightarrow> []
              | s # rest \<Rightarrow> [notifySeatBooked (tripId s) (map seatId (s # rest))])"
    and R: "fst (handleWebhook e w st)
           = Inr \<lparr>success = True, message = ''Webhook processed successfully''\<rparr>"
    unfolding run by simp_all
  have pay: "findOne (byOrderCode (orderCode w)) (payments (snd (handleWebhook e w st)))
      = Some (p\<lparr>payment_status := PaymentStatus_COMPLETED\<rparr>)"
    unfolding P using assms(2) by (simp add: findOne_payment_updated setPaymentStatus_def)
  have pays: "\<forall>q \<in> set (payments (snd (handleWebhook e w st))).
      payosOrderCode q = orderCode w \<longrightarrow> payment_status q = PaymentStatus_COMPLETED"
    unfolding P using updateWhere_matching [of "\<lambda>q. payment_status q = PaymentStatus_COMPLETED"
        "setPaymentStatus PaymentStatus_COMPLETED" "byOrderCode (orderCode w)" "payments st"]
    by (simp add: setPaymentStatus_def byOrderCode_def)
  have books: "\<forall>k \<in> set (bookings (snd (handleWebhook e w st))).
      booking_id k = b \<longrightarrow> booking_status k = BookingStatus_PAID"
    unfolding B using updateWhere_matching [of "\<lambda>k. booking_status k = BookingStatus_PAID"
        markPaid "byBookingId b" "bookings st"]
    by (simp add: markPaid_def byBookingId_def)
  have seats: "\<forall>s \<in> set (seatStatuses (snd (handleWebhook e w st))).
      seat_bookingId s = Some b \<longrightarrow> seat_state s = SeatState_BOOKED \<and> lockedUntil s = None"
    unfolding S using updateWhere_matching
       [of "\<lambda>s. seat_state s = SeatState_BOOKED \<and> lockedUntil s = None"
        markBooked "seatOfBooking b" "seatStatuses st"]
    by (simp add: markBooked_def seatOfBooking_def)
  from R pay pays books seats E show ?thesis by blast
qed

theorem success_webhook_outcome_witness:
  "code successEvent = ''00''
   \<and> findOne (byOrderCode (orderCode successEvent)) (payments exampleStore) = Some examplePayment
   \<and> bookingRef examplePayment = Some ''42''
   \<and> throws exampleEnv = {}
   \<and> fst (handleWebhook exampleEnv successEvent exampleStore)
        = Inr \<lparr>success = True, message = ''Webhook processed successfully''\<rparr>
   \<and> emitted (snd (handleWebhook exampleEnv successEvent exampleStore))
        = [notifyBookingStatusChanged ''42'' BookingStatus_PAID
             (PaymentCompleted ''payos'' (toString 12345)),
           notifySeatBooked ''trip-1'' [''A'', ''B'']]"
proof -
  have c: "code successEvent = ''00''" by (simp add: successEvent_def)
  have t: "throws exampleEnv = {}" by (simp add: exampleEnv_def)
  have x: "findOne (byBookingId ''42'') (bookings exampleStore) = Some exampleBooking"
    "findWhere (seatOfBooking ''42'') (seatStatuses exampleStore)
       = [exampleSeat ''s1'' ''A'', exampleSeat ''s2'' ''B'']"
    "emitted exampleStore = []" "orderCode successEvent = 12345"
    "tripId (exampleSeat ''s1'' ''A'') = ''trip-1''"
    "seatId (exampleSeat ''s1'' ''A'') = ''A''" "seatId (exampleSeat ''s2'' ''B'') = ''B''"
    by (simp_all add: table_defs example_defs)
  from success_webhook_outcome [OF c example_lookup(1) example_lookup(4) t] c t example_lookup
  show ?thesis by (simp add: x)
qed

theorem success_webhook_outcome_counterexample:
  "code successEvent = ''00''
   \<and> findOne (byOrderCode (orderCode successEvent))
         (payments (exampleStore\<lparr>seatStatuses := []\<rparr>)) = Some examplePayment
   \<and> bookingRef examplePayment = Some ''42''
   \<and> emitted (snd (handleWebhook exampleEnv successEvent (exampleStore\<lparr>seatStatuses := []\<rparr>)))
       = [notifyBookingStatusChanged ''42'' BookingStatus_PAID
            (PaymentCompleted ''payos'' (toString 12345))]"
  by (simp add: handleWebhook_def handleWebhook_body_def branch_defs throwsAt_def Let_def
      table_defs example_defs bookingRef_def)

subsection \<open>The three tables after one delivery\<close>

lemma updateWhere_nth:
  "i < length rows \<Longrightarrow>
     updateWhere P f rows ! i = (if P (rows ! i) then f (rows ! i) else rows ! i)"
  by (simp add: updateWhere_def)

text \<open>
  What one delivery does to the three tables, for every set of throwing places, when the
  order code is that of a Payment with a Booking reference.
\<close>

lemma handleWebhook_payments:
  assumes "findOne (byOrderCode (orderCode w)) (payments st) = Some p"
  shows "payments (snd (handleWebhook e w st)) =
     (if throws e \<inter> {LogReceived, LogDetails, PaymentFindOne, LogFound, PaymentUpdate} = {}
      then updateWhere (byOrderCode (orderCode w))
             (setPaymentStatus
                (if code w = ''00'' then PaymentStatus_COMPLETED else PaymentStatus_FAILED))
             (payments st)
      else payments st)"
proof (cases "throws e \<inter> {LogReceived, LogDetails, PaymentFindOne, LogFound, PaymentUpdate} = {}")
  case False
  then have "snd (handleWebhook e w st) = st" by (rule handleWebhook_untouched [OF disjI1])
  with False show ?thesis by (simp only: if_False)
next
  case True
  show ?thesis
  proof (cases "bookingRef p")
    case None
    then have "bookingRef p = None \<or> LogProcessing \<in> throws e" ..
    from handleWebhook_recorded_only [OF True assms this] True
    show ?thesis by (simp only: if_True) simp
  next
    case (Some b)
    show ?thesis
    proof (cases "LogProcessing \<in> throws e")
      case lp: True
      then have "bookingRef p = None \<or> LogProcessing \<in> throws e" ..
      from handleWebhook_recorded_only [OF True assms this] True
      show ?thesis by (simp only: if_True) simp
    next
      case False
      from handleWebhook_cascade_store [OF True assms Some] onBooking_tables(1) [OF False] True
      show ?thesis by (simp only: if_True) simp
    qed
  qed
qed

lemma handleWebhook_bookings:
  assumes "findOne (byOrderCode (orderCode w)) (payments st) = Some p"
    and "bookingRef p = Some b"
  shows "bookings (snd (handleWebhook e w st)) =
     (if throws e \<inter> {LogReceived, LogDetails, PaymentFindOne, LogFound, PaymentUpdate,
                      LogProcessing, BookingUpdate} = {}
      then updateWhere (byBookingId b)
             (if code w = ''00'' then markPaid else markCancelled (now e)) (bookings st)
      else bookings st)"
proof (cases "throws e \<inter> {LogReceived, LogDetails, PaymentFindOne, LogFound, PaymentUpdate} = {}")
  case False
  then have "snd (handleWebhook e w st) = st" by (rule handleWebhook_untouched [OF disjI1])
  moreover from False have "throws e \<inter> {LogReceived, LogDetails, PaymentFindOne, LogFound,
      PaymentUpdate, LogProcessing, BookingUpdate} \<noteq> {}" by blast
  ultimately show ?thesis by (simp only: if_False)
next
  case True
  show ?thesis
  proof (cases "LogProcessing \<in> throws e")
    case lp: True
    then have "bookingRef p = None \<or> LogProcessing \<in> throws e" ..
    from handleWebhook_recorded_only [OF True assms(1) this]
    have "bookings (snd (handleWebhook e w st)) = bookings st" by simp
    moreover from lp have "throws e \<inter> {LogReceived, LogDetails, PaymentFindOne, LogFound,
      PaymentUpdate, LogProcessing, BookingUpdate} \<noteq> {}" by blast
    ultimately show ?thesis by (simp only: if_False)
  next
    case False
    have c: "(throws e \<inter> {LogReceived, LogDetails, PaymentFindOne, LogFound,
      PaymentUpdate, LogProcessing, BookingUpdate} = {}) = (BookingUpdate \<notin> throws e)"
      using True False by blast
    from handleWebhook_cascade_store [OF True assms] onBooking_tables(2) [OF False]
    show ?thesis unfolding c by (cases "code w = ''00''") simp_all
  qed
qed

lemma handleWebhook_seatStatuses:
  assumes "findOne (byOrderCode (orderCode w)) (payments st) = Some p"
    and "bookingRef p = Some b"
  shows "seatStatuses (snd (handleWebhook e w st)) =
     (if throws e \<inter> {LogReceived, LogDetails, PaymentFindOne, LogFound, PaymentUpdate,
                      LogProcessing, SeatUpdate} = {}
      then updateWhere (seatOfBooking b)
             (if code w = ''00'' then markBooked else release) (seatStatuses st)
      else seatStatuses st)"
proof (cases "throws e \<inter> {LogReceived, LogDetails, PaymentFindOne, LogFound, PaymentUpdate} = {}")
  case False
  then have "snd (handleWebhook e w st) = st" by (rule handleWebhook_untouched [OF disjI1])
  moreover from False have "throws e \<inter> {LogReceived, LogDetails, PaymentFindOne, LogFound,
      PaymentUpdate, LogProcessing, SeatUpdate} \<noteq> {}" by blast
  ultimately show ?thesis by (simp only: if_False)
next
  case True
  show ?thesis
  proof (cases "LogProcessing \<in> throws e")
    case lp: True
    then have "bookingRef p = None \<or> LogProcessing \<in> throws e" ..
    from handleWebhook_recorded_only [OF True assms(1) this]
    have "seatStatuses (snd (handleWebhook e w st)) = seatStatuses st" by simp
    moreover from lp have "throws e \<inter> {LogReceived, LogDetails, PaymentFindOne, LogFound,
      PaymentUpdate, LogProcessing, SeatUpdate} \<noteq> {}" by blast
    ultimately show ?thesis by (simp only: if_False)
  next
    case False
    have c: "(throws e \<inter> {LogReceived, LogDetails, PaymentFindOne, LogFound,
      PaymentUpdate, LogProcessing, SeatUpdate} = {}) = (SeatUpdate \<notin> throws e)"
      using True False by blast
    from handleWebhook_cascade_store [OF True assms] onBooking_tables(3) [OF False]
    show ?thesis unfolding c by (cases "code w = ''00''") simp_all
  qed
qed

lemma handleWebhook_without_booking:
  assumes "findOne (byOrderCode (orderCode w)) (payments st) = Some p"
    and "bookingRef p = None"
  shows "bookings (snd (handleWebhook e w st)) = bookings st"
    and "seatStatuses (snd (handleWebhook e w st)) = seatStatuses st"
proof -
  have "snd (handleWebhook e w st) = st \<or> snd (handleWebhook e w st) =
     st\<lparr>payments := updateWhere (byOrderCode (orderCode w))
        (setPaymentStatus (if code w = ''00'' then PaymentStatus_COMPLETED else PaymentStatus_FAILED))
        (payments st)\<rparr>"
    using handleWebhook_untouched [of e w st] handleWebhook_recorded_only [of e w st p] assms
    by blast
  then show "bookings (snd (handleWebhook e w st)) = bookings st"
    and "seatStatuses (snd (handleWebhook e w st)) = seatStatuses st"
    by auto
qed

subsection \<open>Failed payments and the seats of paid bookings\<close>

text \<open>
  C2. A delivery with a code other than "00" whose order code is that of a Payment with
  a Booking reference, when the lookup and the three updates go through: the Payment is
  FAILED, the Booking is CANCELLED with the time of the delivery as cancellation
  timestamp, and every SeatStatus row that referenced the Booking is AVAILABLE with no
  booking reference and no lock expiry.
\<close>

theorem failure_webhook_outcome:
  assumes "code w \<noteq> ''00''"
    and "findOne (byOrderCode (orderCode w)) (payments st) = Some p"
    and "bookingRef p = Some b"
    and "throws e \<inter> {LogReceived, LogDetails, PaymentFindOne, LogFound, PaymentUpdate,
                      LogProcessing, BookingUpdate, SeatUpdate} = {}"
  shows "findOne (byOrderCode (orderCode w)) (payments (snd (handleWebhook e w st)))
           = Some (p\<lparr>payment_status := PaymentStatus_FAILED\<rparr>)
       \<and> (\<forall>q \<in> set (payments (snd (handleWebhook e w st))).
             payosOrderCode q = orderCode w \<longrightarrow> payment_status q = PaymentStatus_FAILED)
       \<and> (\<forall>k \<in> set (bookings (snd (handleWebhook e w st))).
             booking_id k = b \<longrightarrow>
               booking_status k = BookingStatus_CANCELLED \<and> cancelledAt k = Some (now e))
       \<and> length (seatStatuses (snd (handleWebhook e w st))) = length (seatStatuses st)
       \<and> (\<forall>i < length (seatStatuses st).
             seat_bookingId (seatStatuses st ! i) = Some b \<longrightarrow>
               seat_state (seatStatuses (snd (handleWebhook e w st)) ! i) = SeatState_AVAILABLE
             \<and> seat_bookingId (seatStatuses (snd (handleWebhook e w st)) ! i) = None
             \<and> lockedUntil (seatStatuses (snd (handleWebhook e w st)) ! i) = None)"
proof -
  from assms(4) have g:
    "throws e \<inter> {LogReceived, LogDetails, PaymentFindOne, LogFound, PaymentUpdate} = {}"
    "throws e \<inter> {LogReceived, LogDetails, PaymentFindOne, LogFound, PaymentUpdate,
                      LogProcessing, BookingUpdate} = {}"
    "throws e \<inter> {LogReceived, LogDetails, PaymentFindOne, LogFound, PaymentUpdate,
                      LogProcessing, SeatUpdate} = {}"
    by blast+
  have P: "payments (snd (handleWebhook e w st)) = updateWhere (byOrderCode (orderCode w))
      (setPaymentStatus PaymentStatus_FAILED) (payments st)"
    using handleWebhook_payments [OF assms(2), of e] g(1) assms(1) by (simp only: simp_thms if_True if_False)
  have B: "bookings (snd (handleWebhook e w st))
      = updateWhere (byBookingId b) (markCancelled (now e)) (bookings st)"
    using handleWebhook_bookings [OF assms(2,3), of e] g(2) assms(1)
    by (simp only: simp_thms if_True if_False)
  have S: "seatStatuses (snd (handleWebhook e w st))
      = updateWhere (seatOfBooking b) release (seatStatuses st)"
    using handleWebhook_seatStatuses [OF assms(2,3), of e] g(3) assms(1)
    by (simp only: simp_thms if_True if_False)
  have pay: "findOne (byOrderCode (orderCode w)) (payments (snd (handleWebhook e w st)))
      = Some (p\<lparr>payment_status := PaymentStatus_FAILED\<rparr>)"
    unfolding P using assms(2) by (simp add: findOne_payment_updated setPaymentStatus_def)
  have pays: "\<forall>q \<in> set (payments (snd (handleWebhook e w st))).
      payosOrderCode q = orderCode w \<longrightarrow> payment_status q = PaymentStatus_FAILED"
    unfolding P using updateWhere_matching [of "\<lambda>q. payment_status q = PaymentStatus_FAILED"
        "setPaymentStatus PaymentStatus_FAILED" "byOrderCode (orderCode w)" "payments st"]
    by (simp add: setPaymentStatus_def byOrderCode_def)
  have books: "\<forall>k \<in> set (bookings (snd (handleWebhook e w st))).
      booking_id k = b \<longrightarrow>
        booking_status k = BookingStatus_CANCELLED \<and> cancelledAt k = Some (now e)"
    unfolding B using updateWhere_matching
       [of "\<lambda>k. booking_status k = BookingStatus_CANCELLED \<and> cancelledAt k = Some (now e)"
        "markCancelled (now e)" "byBookingId b" "bookings st"]
    by (simp add: markCancelled_def byBookingId_def)
  have len: "length (seatStatuses (snd (handleWebhook e w st))) = length (seatStatuses st)"
    unfolding S by (rule length_updateWhere)
  have seats: "\<forall>i < length (seatStatuses st).
      seat_bookingId (seatStatuses st ! i) = Some b \<longrightarrow>
        seat_state (seatStatuses (snd (handleWebhook e w st)) ! i) = SeatState_AVAILABLE
      \<and> seat_bookingId (seatStatuses (snd (handleWebhook e w st)) ! i) = None
      \<and> lockedUntil (seatStatuses (snd (handleWebhook e w st)) ! i) = None"
    unfolding S by (simp add: updateWhere_nth seatOfBooking_def release_def)
  from pay pays books len seats show ?thesis by blast
qed

theorem failure_webhook_outcome_witness:
  "code failureEvent \<noteq> ''00''
   \<and> findOne (byOrderCode (orderCode failureEvent)) (payments exampleStore) = Some examplePayment
   \<and> bookingRef examplePayment = Some ''42''
   \<and> throws exampleEnv \<inter> {LogReceived, LogDetails, PaymentFindOne, LogFound, PaymentUpdate,
                      LogProcessing, BookingUpdate, SeatUpdate} = {}
   \<and> findOne (byOrderCode 12345) (payments (snd (handleWebhook exampleEnv failureEvent exampleStore)))
        = Some (examplePayment\<lparr>payment_status := PaymentStatus_FAILED\<rparr>)
   \<and> length (seatStatuses (snd (handleWebhook exampleEnv failureEvent exampleStore))) = 2
   \<and> seat_state (seatStatuses (snd (handleWebhook exampleEnv failureEvent exampleStore)) ! 1)
        = SeatState_AVAILABLE"
proof -
  have c: "code failureEvent \<noteq> ''00''" by (simp add: failureEvent_def)
  have t: "throws exampleEnv \<inter> {LogReceived, LogDetails, PaymentFindOne, LogFound,
      PaymentUpdate, LogProcessing, BookingUpdate, SeatUpdate} = {}"
    by (simp add: exampleEnv_def)
  have x: "orderCode failureEvent = 12345" "length (seatStatuses exampleStore) = 2"
    "seat_bookingId (seatStatuses exampleStore ! 1) = Some ''42''"
    by (simp_all add: example_defs)
  from failure_webhook_outcome [OF c example_lookup(2) example_lookup(4) t] c t example_lookup x
  show ?thesis by simp
qed

text \<open>
  C10. On a delivery with code "00" for a Payment with a Booking reference, whatever
  throws, no SeatStatus row changes its identifier, seat, trip or booking reference; when
  the seat update is reached and goes through, each row that references the Booking has
  its state set to BOOKED and its lock expiry cleared, and nothing else changes.
\<close>

theorem success_webhook_keeps_seat_reference:
  assumes "code w = ''00''"
    and "findOne (byOrderCode (orderCode w)) (payments st) = Some p"
    and "bookingRef p = Some b"
  shows "map seat_bookingId (seatStatuses (snd (handleWebhook e w st)))
           = map seat_bookingId (seatStatuses st)
       \<and> map (\<lambda>s. (seat_id s, seatId s, tripId s)) (seatStatuses (snd (handleWebhook e w st)))
           = map (\<lambda>s. (seat_id s, seatId s, tripId s)) (seatStatuses st)
       \<and> (throws e \<inter> {LogReceived, LogDetails, PaymentFindOne, LogFound, PaymentUpdate,
                      LogProcessing, SeatUpdate} = {} \<longrightarrow>
            seatStatuses (snd (handleWebhook e w st))
              = map (\<lambda>s. if seat_bookingId s = Some b
                          then s\<lparr>seat_state := SeatState_BOOKED, lockedUntil := None\<rparr>
                          else s) (seatStatuses st))"
proof -
  have S: "seatStatuses (snd (handleWebhook e w st)) =
     (if throws e \<inter> {LogReceived, LogDetails, PaymentFindOne, LogFound, PaymentUpdate,
                      LogProcessing, SeatUpdate} = {}
      then updateWhere (seatOfBooking b) markBooked (seatStatuses st)
      else seatStatuses st)"
    using handleWebhook_seatStatuses [OF assms(2,3), of e] assms(1) by (simp only: simp_thms if_True if_False)
  have u: "updateWhere (seatOfBooking b) markBooked rows
      = map (\<lambda>s. if seat_bookingId s = Some b
                  then s\<lparr>seat_state := SeatState_BOOKED, lockedUntil := None\<rparr>
                  else s) rows" for rows
    by (simp add: updateWhere_def seatOfBooking_def markBooked_def)
  have r: "map seat_bookingId (updateWhere (seatOfBooking b) markBooked rows)
      = map seat_bookingId rows" for rows
    by (simp add: u)
  have k: "map (\<lambda>s. (seat_id s, seatId s, tripId s))
        (updateWhere (seatOfBooking b) markBooked rows)
      = map (\<lambda>s. (seat_id s, seatId s, tripId s)) rows" for rows
    by (simp add: u)
  show ?thesis
  proof (cases "throws e \<inter> {LogReceived, LogDetails, PaymentFindOne, LogFound, PaymentUpdate,
                      LogProcessing, SeatUpdate} = {}")
    case True
    then have eq: "seatStatuses (snd (handleWebhook e w st))
        = updateWhere (seatOfBooking b) markBooked (seatStatuses st)"
      using S by (simp only: simp_thms if_True)
    have "map seat_bookingId (seatStatuses (snd (handleWebhook e w st)))
        = map seat_bookingId (seatStatuses st)"
      by (simp only: eq r)
    moreover have "map (\<lambda>s. (seat_id s, seatId s, tripId s))
          (seatStatuses (snd (handleWebhook e w st)))
        = map (\<lambda>s. (seat_id s, seatId s, tripId s)) (seatStatuses st)"
      by (simp only: eq k)
    moreover have "seatStatuses (snd (handleWebhook e w st))
        = map (\<lambda>s. if seat_bookingId s = Some b
                    then s\<lparr>seat_state := SeatState_BOOKED, lockedUntil := None\<rparr>
                    else s) (seatStatuses st)"
      by (simp only: eq u)
    ultimately show ?thesis by blast
  next
    case False
    then have "seatStatuses (snd (handleWebhook e w st)) = seatStatuses st"
      using S by (simp only: simp_thms if_False)
    with False show ?thesis by (simp only: simp_thms)
  qed
qed

theorem success_webhook_keeps_seat_reference_witness:
  "code successEvent = ''00''
   \<and> findOne (byOrderCode (orderCode successEvent)) (payments exampleStore) = Some examplePayment
   \<and> bookingRef examplePayment = Some ''42''
   \<and> throws exampleEnv \<inter> {LogReceived, LogDetails, PaymentFindOne, LogFound, PaymentUpdate,
                      LogProcessing, SeatUpdate} = {}
   \<and> seatStatuses (snd (handleWebhook exampleEnv successEvent exampleStore))
       = [(exampleSeat ''s1'' ''A'')\<lparr>seat_state := SeatState_BOOKED, lockedUntil := None\<rparr>,
          (exampleSeat ''s2'' ''B'')\<lparr>seat_state := SeatState_BOOKED, lockedUntil := None\<rparr>]
   \<and> map seat_bookingId (seatStatuses (snd (handleWebhook exampleEnv successEvent exampleStore)))
       = [Some ''42'', Some ''42'']"
proof -
  have c: "code successEvent = ''00''" by (simp add: successEvent_def)
  have t: "throws exampleEnv \<inter> {LogReceived, LogDetails, PaymentFindOne, LogFound,
      PaymentUpdate, LogProcessing, SeatUpdate} = {}"
    by (simp add: exampleEnv_def)
  have x: "seatStatuses exampleStore = [exampleSeat ''s1'' ''A'', exampleSeat ''s2'' ''B'']"
    "seat_bookingId (exampleSeat ''s1'' ''A'') = Some ''42''"
    "seat_bookingId (exampleSeat ''s2'' ''B'') = Some ''42''"
    by (simp_all add: exampleStore_def exampleSeat_def)
  from success_webhook_keeps_seat_reference
         [OF c example_lookup(1) example_lookup(4), of exampleEnv] c t example_lookup x
  show ?thesis by simp
qed

subsection \<open>Results\<close>









subsection \<open>Failures after the Payment update\<close>

lemma notifyBoth_emitted:
  assumes "WarnNoBooking \<notin> throws e" and "WarnNoSeats \<notin> throws e"
  shows "fst (notifyBoth e booking n found notify st) = None"
    and "emitted (snd (notifyBoth e booking n found notify st)) = emitted st
      @ (if NotifyBooking \<notin> throws e \<and> booking \<noteq> None then [n] else [])
      @ (if NotifySeats \<notin> throws e
         then (case found of
                 Some (s # rest) \<Rightarrow> [notify (tripId s) (map seatId (s # rest))]
               | _ \<Rightarrow> [])
         else [])"
  using assms
  by (simp_all add: notifyBoth_def bookingNotification_def seatNotification_def throwsAt_def
      split: option.split list.split)

lemma onBooking_emitted:
  assumes "throws e \<inter> unguarded = {}"
  shows "fst (onBooking e ok oc b st) = None"
    and "emitted (snd (onBooking e ok oc b st)) = emitted st
      @ (if BookingFindOne \<notin> throws e \<and> NotifyBooking \<notin> throws e
            \<and> findOne (byBookingId b) (bookings st) \<noteq> None
         then [if ok
               then notifyBookingStatusChanged b BookingStatus_PAID
                      (PaymentCompleted ''payos'' (toString oc))
               else notifyBookingStatusChanged b BookingStatus_CANCELLED
                      (PaymentFailed ''payos'' (toString oc) ''Payment failed'')]
         else [])
      @ (if SeatFind \<notin> throws e \<and> NotifySeats \<notin> throws e
         then (case findWhere (seatOfBooking b) (seatStatuses st) of
                 [] \<Rightarrow> []
               | s # rest \<Rightarrow>
                   [(if ok then notifySeatBooked else notifySeatsAvailable)
                      (tripId s) (map seatId (s # rest))])
         else [])"
proof -
  from assms have t: "LogProcessing \<notin> throws e" "WarnNoBooking \<notin> throws e"
    "WarnNoSeats \<notin> throws e"
    by (auto simp: unguarded_def)
  show "fst (onBooking e ok oc b st) = None"
    using t by (simp add: onBooking_def onSuccess_def onFailure_def notifyBoth_emitted
        throwsAt_def Let_def)
  show "emitted (snd (onBooking e ok oc b st)) = emitted st
      @ (if BookingFindOne \<notin> throws e \<and> NotifyBooking \<notin> throws e
            \<and> findOne (byBookingId b) (bookings st) \<noteq> None
         then [if ok
               then notifyBookingStatusChanged b BookingStatus_PAID
                      (PaymentCompleted ''payos'' (toString oc))
               else notifyBookingStatusChanged b BookingStatus_CANCELLED
                      (PaymentFailed ''payos'' (toString oc) ''Payment failed'')]
         else [])
      @ (if SeatFind \<notin> throws e \<and> NotifySeats \<notin> throws e
         then (case findWhere (seatOfBooking b) (seatStatuses st) of
                 [] \<Rightarrow> []
               | s # rest \<Rightarrow>
                   [(if ok then notifySeatBooked else notifySeatsAvailable)
                      (tripId s) (map seatId (s # rest))])
         else [])"
    using t by (cases ok)
      (simp_all add: onBooking_def onSuccess_def onFailure_def notifyBoth_emitted
        throwsAt_def Let_def split: list.split)
qed

lemma handleWebhook_cascade:
  assumes "throws e \<inter> {LogReceived, LogDetails, PaymentFindOne, LogFound, PaymentUpdate} = {}"
    and "findOne (byOrderCode (orderCode w)) (payments st) = Some p"
    and "bookingRef p = Some b"
    and "fst (onBooking e (code w = ''00'') (orderCode w) b
       (st\<lparr>payments := updateWhere (byOrderCode (orderCode w))
        (setPaymentStatus (if code w = ''00'' then PaymentStatus_COMPLETED else PaymentStatus_FAILED))
        (payments st)\<rparr>)) = None"
  shows "fst (handleWebhook e w st)
       = Inr \<lparr>success = True, message = ''Webhook processed successfully''\<rparr>"
proof -
  obtain x st2 where ob: "onBooking e (code w = ''00'') (orderCode w) b
       (st\<lparr>payments := updateWhere (byOrderCode (orderCode w))
        (setPaymentStatus (if code w = ''00'' then PaymentStatus_COMPLETED else PaymentStatus_FAILED))
        (payments st)\<rparr>) = (x, st2)"
    by (cases "onBooking e (code w = ''00'') (orderCode w) b
       (st\<lparr>payments := updateWhere (byOrderCode (orderCode w))
        (setPaymentStatus (if code w = ''00'' then PaymentStatus_COMPLETED else PaymentStatus_FAILED))
        (payments st)\<rparr>)")
  with assms(4) have "x = None" by simp
  with ob assms(1-3) show ?thesis
    by (cases "code w = ''00''")
      (simp_all add: handleWebhook_def handleWebhook_body_def throwsAt_def Let_def)
qed

lemma handleWebhook_acknowledged:
  assumes "findOne (byOrderCode (orderCode w)) (payments st) = Some p"
    and "bookingRef p = Some b"
    and "throws e \<inter> ({LogReceived, LogDetails, PaymentFindOne, LogFound, PaymentUpdate}
                       \<union> unguarded) = {}"
  shows "fst (handleWebhook e w st)
           = Inr \<lparr>success = True, message = ''Webhook processed successfully''\<rparr>"
    and "emitted (snd (handleWebhook e w st)) = emitted st
      @ (if BookingFindOne \<notin> throws e \<and> NotifyBooking \<notin> throws e
            \<and> findOne (byBookingId b) (bookings st) \<noteq> None
         then [if code w = ''00''
               then notifyBookingStatusChanged b BookingStatus_PAID
                      (PaymentCompleted ''payos'' (toString (orderCode w)))
               else notifyBookingStatusChanged b BookingStatus_CANCELLED
                      (PaymentFailed ''payos'' (toString (orderCode w)) ''Payment failed'')]
         else [])
      @ (if SeatFind \<notin> throws e \<and> NotifySeats \<notin> throws e
         then (case findWhere (seatOfBooking b) (seatStatuses st) of
                 [] \<Rightarrow> []
               | s # rest \<Rightarrow>
                   [(if code w = ''00'' then notifySeatBooked else notifySeatsAvailable)
                      (tripId s) (map seatId (s # rest))])
         else [])"
proof -
  from assms(3) have g:
    "throws e \<inter> {LogReceived, LogDetails, PaymentFindOne, LogFound, PaymentUpdate} = {}"
    and u: "throws e \<inter> unguarded = {}"
    by blast+
  show "fst (handleWebhook e w st)
           = Inr \<lparr>success = True, message = ''Webhook processed successfully''\<rparr>"
    by (rule handleWebhook_cascade [OF g assms(1,2) onBooking_emitted(1) [OF u]])
  show "emitted (snd (handleWebhook e w st)) = emitted st
      @ (if BookingFindOne \<notin> throws e \<and> NotifyBooking \<notin> throws e
            \<and> findOne (byBookingId b) (bookings st) \<noteq> None
         then [if code w = ''00''
               then notifyBookingStatusChanged b BookingStatus_PAID
                      (PaymentCompleted ''payos'' (toString (orderCode w)))
               else notifyBookingStatusChanged b BookingStatus_CANCELLED
                      (PaymentFailed ''payos'' (toString (orderCode w)) ''Payment failed'')]
         else [])
      @ (if SeatFind \<notin> throws e \<and> NotifySeats \<notin> throws e
         then (case findWhere (seatOfBooking b) (seatStatuses st) of
                 [] \<Rightarrow> []
               | s # rest \<Rightarrow>
                   [(if code w = ''00'' then notifySeatBooked else notifySeatsAvailable)
                      (tripId s) (map seatId (s # rest))])
         else [])"
    unfolding handleWebhook_cascade_store [OF g assms(1,2)] onBooking_emitted(2) [OF u]
    by simp
qed

text \<open>
  C5. When the order code is that of a Payment with a Booking reference, the Payment and
  Booking updates go through, no statement outside the inner \<^verbatim>\<open>try\<close> blocks throws,
  and the SeatStatus update throws: the result is still \<open>success = True\<close>, the Payment is
  COMPLETED (code "00") or FAILED (any other code), the Booking is updated, the seats are
  as they were, and the two notifications are sent as they are without the failure.
\<close>

theorem seat_update_failure_isolated:
  assumes "findOne (byOrderCode (orderCode w)) (payments st) = Some p"
    and "bookingRef p = Some b"
    and "SeatUpdate \<in> throws e"
    and "throws e \<inter> ({LogReceived, LogDetails, PaymentFindOne, LogFound, PaymentUpdate,
                       BookingUpdate} \<union> unguarded) = {}"
  shows "fst (handleWebhook e w st)
           = Inr \<lparr>success = True, message = ''Webhook processed successfully''\<rparr>
       \<and> findOne (byOrderCode (orderCode w)) (payments (snd (handleWebhook e w st)))
           = Some (p\<lparr>payment_status :=
                (if code w = ''00'' then PaymentStatus_COMPLETED else PaymentStatus_FAILED)\<rparr>)
       \<and> (\<forall>q \<in> set (payments (snd (handleWebhook e w st))).
             payosOrderCode q = orderCode w \<longrightarrow>
             payment_status q =
               (if code w = ''00'' then PaymentStatus_COMPLETED else PaymentStatus_FAILED))
       \<and> bookings (snd (handleWebhook e w st))
           = updateWhere (byBookingId b)
               (if code w = ''00'' then markPaid else markCancelled (now e)) (bookings st)
       \<and> seatStatuses (snd (handleWebhook e w st)) = seatStatuses st
       \<and> emitted (snd (handleWebhook e w st)) = emitted st
           @ (if BookingFindOne \<notin> throws e \<and> NotifyBooking \<notin> throws e
                 \<and> findOne (byBookingId b) (bookings st) \<noteq> None
              then [if code w = ''00''
                    then notifyBookingStatusChanged b BookingStatus_PAID
                           (PaymentCompleted ''payos'' (toString (orderCode w)))
                    else notifyBookingStatusChanged b BookingStatus_CANCELLED
                           (PaymentFailed ''payos'' (toString (orderCode w)) ''Payment failed'')]
              else [])
           @ (if SeatFind \<notin> throws e \<and> NotifySeats \<notin> throws e
              then (case findWhere (seatOfBooking b) (seatStatuses st) of
                      [] \<Rightarrow> []
                    | s # rest \<Rightarrow>
                        [(if code w = ''00'' then notifySeatBooked else notifySeatsAvailable)
                           (tripId s) (map seatId (s # rest))])
              else [])"
proof -
  let ?v = "if code w = ''00'' then PaymentStatus_COMPLETED else PaymentStatus_FAILED"
  from assms(4) have a:
    "throws e \<inter> ({LogReceived, LogDetails, PaymentFindOne, LogFound, PaymentUpdate}
                       \<union> unguarded) = {}"
    and g5: "throws e \<inter> {LogReceived, LogDetails, PaymentFindOne, LogFound, PaymentUpdate} = {}"
    and gb: "throws e \<inter> {LogReceived, LogDetails, PaymentFindOne, LogFound, PaymentUpdate,
                      LogProcessing, BookingUpdate} = {}"
    by (auto simp: unguarded_def)
  from assms(3) have gs: "throws e \<inter> {LogReceived, LogDetails, PaymentFindOne, LogFound,
      PaymentUpdate, LogProcessing, SeatUpdate} \<noteq> {}"
    by blast
  note ack = handleWebhook_acknowledged [OF assms(1,2) a]
  have P: "payments (snd (handleWebhook e w st))
      = updateWhere (byOrderCode (orderCode w)) (setPaymentStatus ?v) (payments st)"
    using handleWebhook_payments [OF assms(1), of e] g5 by (simp only: simp_thms if_True)
  have B: "bookings (snd (handleWebhook e w st))
      = updateWhere (byBookingId b)
          (if code w = ''00'' then markPaid else markCancelled (now e)) (bookings st)"
    using handleWebhook_bookings [OF assms(1,2), of e] gb by (simp only: simp_thms if_True)
  have S: "seatStatuses (snd (handleWebhook e w st)) = seatStatuses st"
    using handleWebhook_seatStatuses [OF assms(1,2), of e] gs by (simp only: if_False)
  have pay: "findOne (byOrderCode (orderCode w)) (payments (snd (handleWebhook e w st)))
      = Some (p\<lparr>payment_status := ?v\<rparr>)"
    unfolding P using assms(1) by (simp add: findOne_payment_updated setPaymentStatus_def)
  have pays: "\<forall>q \<in> set (payments (snd (handleWebhook e w st))).
      payosOrderCode q = orderCode w \<longrightarrow> payment_status q = ?v"
    unfolding P using updateWhere_matching [of "\<lambda>q. payment_status q = ?v"
        "setPaymentStatus ?v" "byOrderCode (orderCode w)" "payments st"]
    by (simp add: setPaymentStatus_def byOrderCode_def)
  from ack(1) pay pays B S ack(2) show ?thesis by blast
qed

theorem seat_update_failure_isolated_witness:
  "findOne (byOrderCode (orderCode failureEvent)) (payments exampleStore) = Some examplePayment
   \<and> bookingRef examplePayment = Some ''42''
   \<and> SeatUpdate \<in> throws (exampleEnv\<lparr>throws := {SeatUpdate}\<rparr>)
   \<and> throws (exampleEnv\<lparr>throws := {SeatUpdate}\<rparr>)
        \<inter> ({LogReceived, LogDetails, PaymentFindOne, LogFound, PaymentUpdate,
                       BookingUpdate} \<union> unguarded) = {}
   \<and> fst (handleWebhook (exampleEnv\<lparr>throws := {SeatUpdate}\<rparr>) failureEvent exampleStore)
        = Inr \<lparr>success = True, message = ''Webhook processed successfully''\<rparr>
   \<and> seatStatuses (snd (handleWebhook (exampleEnv\<lparr>throws := {SeatUpdate}\<rparr>)
          failureEvent exampleStore)) = seatStatuses exampleStore
   \<and> emitted (snd (handleWebhook (exampleEnv\<lparr>throws := {SeatUpdate}\<rparr>)
          failureEvent exampleStore))
        = [notifyBookingStatusChanged ''42'' BookingStatus_CANCELLED
             (PaymentFailed ''payos'' (toString 12345) ''Payment failed''),
           notifySeatsAvailable ''trip-1'' [''A'', ''B'']]"
proof -
  let ?e = "exampleEnv\<lparr>throws := {SeatUpdate}\<rparr>"
  have s: "SeatUpdate \<in> throws ?e" by simp
  have t: "throws ?e \<inter> ({LogReceived, LogDetails, PaymentFindOne, LogFound, PaymentUpdate,
                       BookingUpdate} \<union> unguarded) = {}"
    by (simp add: unguarded_def)
  have x: "findOne (byBookingId ''42'') (bookings exampleStore) = Some exampleBooking"
    "findWhere (seatOfBooking ''42'') (seatStatuses exampleStore)
       = [exampleSeat ''s1'' ''A'', exampleSeat ''s2'' ''B'']"
    "emitted exampleStore = []" "orderCode failureEvent = 12345"
    "code failureEvent \<noteq> ''00''"
    "tripId (exampleSeat ''s1'' ''A'') = ''trip-1''"
    "seatId (exampleSeat ''s1'' ''A'') = ''A''" "seatId (exampleSeat ''s2'' ''B'') = ''B''"
    by (simp_all add: table_defs example_defs)
  from seat_update_failure_isolated [OF example_lookup(2) example_lookup(4) s t]
    s t example_lookup
  show ?thesis by (simp add: x)
qed

subsection \<open>Repeated deliveries\<close>

lemma bookings_paid_twice:
  "updateWhere (byBookingId b) markPaid (updateWhere (byBookingId b) markPaid rows)
     = updateWhere (byBookingId b) markPaid rows"
  by (rule updateWhere_again) (simp_all add: markPaid_def)

lemma bookings_cancelled_twice:
  "updateWhere (byBookingId b) (markCancelled u)
       (updateWhere (byBookingId b) (markCancelled t) rows)
     = updateWhere (byBookingId b) (markCancelled u) rows"
  by (rule updateWhere_again) (simp_all add: markCancelled_def byBookingId_def)

lemma seats_updated_twice:
  assumes "f = markBooked \<or> f = release"
  shows "updateWhere (seatOfBooking b) f (updateWhere (seatOfBooking b) f rows)
       = updateWhere (seatOfBooking b) f rows"
proof (rule updateWhere_again)
  fix r
  show "f (f r) = f r" using assms by (auto simp: markBooked_def release_def)
qed simp

lemma handleWebhook_twice_tables:
  assumes "throws e2 = throws e1"
  shows "payments (snd (handleWebhook e2 w (snd (handleWebhook e1 w st))))
           = payments (snd (handleWebhook e1 w st))
       \<and> seatStatuses (snd (handleWebhook e2 w (snd (handleWebhook e1 w st))))
           = seatStatuses (snd (handleWebhook e1 w st))
       \<and> bookings (snd (handleWebhook e2 w (snd (handleWebhook e1 w st))))
           = bookings (snd (handleWebhook e2 w st))
       \<and> (code w = ''00'' \<or> now e2 = now e1 \<longrightarrow>
            bookings (snd (handleWebhook e2 w (snd (handleWebhook e1 w st))))
              = bookings (snd (handleWebhook e1 w st)))
       \<and> map (\<lambda>k. (booking_id k, booking_status k))
            (bookings (snd (handleWebhook e2 w (snd (handleWebhook e1 w st)))))
           = map (\<lambda>k. (booking_id k, booking_status k))
               (bookings (snd (handleWebhook e1 w st)))"
proof (cases "findOne (byOrderCode (orderCode w)) (payments st)")
  case None
  then have 1: "snd (handleWebhook e1 w st) = st" and 2: "snd (handleWebhook e2 w st) = st"
    by (simp_all add: handleWebhook_untouched)
  show ?thesis by (simp only: 1 2 simp_thms)
next
  case (Some p)
  let ?oc = "orderCode w"
  let ?v = "if code w = ''00'' then PaymentStatus_COMPLETED else PaymentStatus_FAILED"
  let ?once = "snd (handleWebhook e1 w st)"
  let ?c5 = "throws e1 \<inter> {LogReceived, LogDetails, PaymentFindOne, LogFound, PaymentUpdate} = {}"
  have P1: "payments ?once =
      (if ?c5 then updateWhere (byOrderCode ?oc) (setPaymentStatus ?v) (payments st)
       else payments st)"
    by (rule handleWebhook_payments [OF Some])
  define p' where "p' = (if ?c5 then setPaymentStatus ?v p else p)"
  have ref: "bookingRef p' = bookingRef p" by (simp add: p'_def)
  have Some': "findOne (byOrderCode ?oc) (payments ?once) = Some p'"
    unfolding P1 p'_def using Some by (simp add: findOne_payment_updated)
  have P2: "payments (snd (handleWebhook e2 w ?once)) = payments ?once"
    unfolding handleWebhook_payments [OF Some', of e2] assms P1
    by (simp add: payments_updated_twice)
  show ?thesis
  proof (cases "bookingRef p")
    case None
    with ref have None': "bookingRef p' = None" by simp
    note n1 = handleWebhook_without_booking [OF Some None, of e1]
    note n2 = handleWebhook_without_booking [OF Some None, of e2]
    note n3 = handleWebhook_without_booking [OF Some' None', of e2]
    show ?thesis by (simp only: P2 n1 n2 n3 simp_thms)
  next
    case (Some b)
    with ref have ref': "bookingRef p' = Some b" by simp
    let ?cb = "throws e1 \<inter> {LogReceived, LogDetails, PaymentFindOne, LogFound, PaymentUpdate,
                      LogProcessing, BookingUpdate} = {}"
    let ?cs = "throws e1 \<inter> {LogReceived, LogDetails, PaymentFindOne, LogFound, PaymentUpdate,
                      LogProcessing, SeatUpdate} = {}"
    let ?f = "\<lambda>t. if code w = ''00'' then markPaid else markCancelled t"
    let ?h = "if code w = ''00'' then markBooked else release"
    have B1: "bookings ?once =
        (if ?cb then updateWhere (byBookingId b) (?f (now e1)) (bookings st) else bookings st)"
      by (rule handleWebhook_bookings [OF \<open>findOne _ (payments st) = Some p\<close> Some])
    have B0: "bookings (snd (handleWebhook e2 w st)) =
        (if ?cb then updateWhere (byBookingId b) (?f (now e2)) (bookings st) else bookings st)"
      using handleWebhook_bookings [OF \<open>findOne _ (payments st) = Some p\<close> Some, of e2]
      by (simp only: assms)
    have B2: "bookings (snd (handleWebhook e2 w ?once)) =
        (if ?cb then updateWhere (byBookingId b) (?f (now e2)) (bookings ?once)
         else bookings ?once)"
      using handleWebhook_bookings [OF Some' ref', of e2] by (simp only: assms)
    have S1: "seatStatuses ?once =
        (if ?cs then updateWhere (seatOfBooking b) ?h (seatStatuses st) else seatStatuses st)"
      by (rule handleWebhook_seatStatuses [OF \<open>findOne _ (payments st) = Some p\<close> Some])
    have S2: "seatStatuses (snd (handleWebhook e2 w ?once)) =
        (if ?cs then updateWhere (seatOfBooking b) ?h (seatStatuses ?once)
         else seatStatuses ?once)"
      using handleWebhook_seatStatuses [OF Some' ref', of e2] by (simp only: assms)
    have tw: "updateWhere (byBookingId b) (?f u) (updateWhere (byBookingId b) (?f t) rows)
        = updateWhere (byBookingId b) (?f u) rows" for t u rows
      by (cases "code w = ''00''") (simp_all add: bookings_paid_twice bookings_cancelled_twice)
    have seats: "seatStatuses (snd (handleWebhook e2 w ?once)) = seatStatuses ?once"
      unfolding S2 unfolding S1 by (simp add: seats_updated_twice)
    have later: "bookings (snd (handleWebhook e2 w ?once)) = bookings (snd (handleWebhook e2 w st))"
      unfolding B2 B0 unfolding B1 by (simp add: tw)
    have same: "bookings (snd (handleWebhook e2 w st)) = bookings ?once"
      if "code w = ''00'' \<or> now e2 = now e1"
      unfolding B0 B1 using that by auto
    have keys: "map (\<lambda>k. (booking_id k, booking_status k)) (bookings (snd (handleWebhook e2 w st)))
        = map (\<lambda>k. (booking_id k, booking_status k)) (bookings ?once)"
      unfolding B0 B1
      by (simp add: updateWhere_def markPaid_def markCancelled_def)
    from P2 seats later same keys show ?thesis by (simp only: simp_thms) blast
  qed
qed

lemma handleWebhook_twice_later:
  assumes "throws e2 = throws e1"
  shows "bookings (snd (handleWebhook e2 w (snd (handleWebhook e1 w st))))
           = bookings (snd (handleWebhook e2 w st))"
  using handleWebhook_twice_tables [OF assms] by blast

lemma replay_example:
  "bookings (snd (handleWebhook (exampleEnv\<lparr>now := 1762117260000\<rparr>) failureEvent
      (snd (handleWebhook exampleEnv failureEvent exampleStore))))
     = [exampleBooking\<lparr>booking_status := BookingStatus_CANCELLED,
                         cancelledAt := Some 1762117260000\<rparr>]
   \<and> bookings (snd (handleWebhook exampleEnv failureEvent exampleStore))
     = [exampleBooking\<lparr>booking_status := BookingStatus_CANCELLED,
                         cancelledAt := Some 1762117200123\<rparr>]"
proof -
  have t: "throws (exampleEnv\<lparr>now := 1762117260000\<rparr>) = throws exampleEnv" by simp
  have c: "code failureEvent \<noteq> ''00''" by (simp add: failureEvent_def)
  have e: "throws exampleEnv \<inter> {LogReceived, LogDetails, PaymentFindOne, LogFound,
      PaymentUpdate, LogProcessing, BookingUpdate} = {}"
    by (simp add: exampleEnv_def)
  have x: "bookings exampleStore = [exampleBooking]" "booking_id exampleBooking = ''42''"
    "now exampleEnv = 1762117200123"
    by (simp_all add: example_defs)
  have once: "bookings (snd (handleWebhook e' failureEvent exampleStore))
      = [exampleBooking\<lparr>booking_status := BookingStatus_CANCELLED,
                          cancelledAt := Some (now e')\<rparr>]"
    if "throws e' = throws exampleEnv" for e'
    unfolding handleWebhook_bookings [OF example_lookup(2) example_lookup(4), of e'] that
    using c e by (simp add: x updateWhere_def byBookingId_def markCancelled_def)
  have l: "bookings (snd (handleWebhook (exampleEnv\<lparr>now := 1762117260000\<rparr>) failureEvent
      (snd (handleWebhook exampleEnv failureEvent exampleStore))))
     = bookings (snd (handleWebhook (exampleEnv\<lparr>now := 1762117260000\<rparr>) failureEvent
          exampleStore))"
    using handleWebhook_twice_later [OF t] .
  show ?thesis unfolding l using once [OF t] once [OF refl] by (simp add: x)
qed

text \<open>
  C3. Two deliveries of one event in sequence, both meeting the same throwing places.
  The Payment and SeatStatus rows after the second delivery are those after the first.
  The Booking rows after the second delivery are those of a single delivery at the time
  of the second one; they are those after the first delivery when the code is "00" or
  both deliveries read the same clock, and in every case they agree with them in
  identifier and status.
\<close>

theorem webhook_replay_convergent:
  assumes "throws e2 = throws e1"
  shows "payments (snd (handleWebhook e2 w (snd (handleWebhook e1 w st))))
           = payments (snd (handleWebhook e1 w st))
       \<and> seatStatuses (snd (handleWebhook e2 w (snd (handleWebhook e1 w st))))
           = seatStatuses (snd (handleWebhook e1 w st))
       \<and> bookings (snd (handleWebhook e2 w (snd (handleWebhook e1 w st))))
           = bookings (snd (handleWebhook e2 w st))
       \<and> (code w = ''00'' \<or> now e2 = now e1 \<longrightarrow>
            bookings (snd (handleWebhook e2 w (snd (handleWebhook e1 w st))))
              = bookings (snd (handleWebhook e1 w st)))
       \<and> map (\<lambda>k. (booking_id k, booking_status k))
            (bookings (snd (handleWebhook e2 w (snd (handleWebhook e1 w st)))))
           = map (\<lambda>k. (booking_id k, booking_status k))
               (bookings (snd (handleWebhook e1 w st)))"
  by (rule handleWebhook_twice_tables [OF assms])

theorem webhook_replay_convergent_witness:
  "throws (exampleEnv\<lparr>now := 1762117260000\<rparr>) = throws exampleEnv
   \<and> code successEvent = ''00''
   \<and> payments (snd (handleWebhook (exampleEnv\<lparr>now := 1762117260000\<rparr>) successEvent
        (snd (handleWebhook exampleEnv successEvent exampleStore))))
       = payments (snd (handleWebhook exampleEnv successEvent exampleStore))
   \<and> seatStatuses (snd (handleWebhook (exampleEnv\<lparr>now := 1762117260000\<rparr>) successEvent
        (snd (handleWebhook exampleEnv successEvent exampleStore))))
       = seatStatuses (snd (handleWebhook exampleEnv successEvent exampleStore))
   \<and> bookings (snd (handleWebhook (exampleEnv\<lparr>now := 1762117260000\<rparr>) successEvent
        (snd (handleWebhook exampleEnv successEvent exampleStore))))
       = bookings (snd (handleWebhook exampleEnv successEvent exampleStore))"
proof -
  have t: "throws (exampleEnv\<lparr>now := 1762117260000\<rparr>) = throws exampleEnv" by simp
  have c: "code successEvent = ''00''" by (simp add: successEvent_def)
  from webhook_replay_convergent [OF t, of successEvent exampleStore] t c show ?thesis by blast
qed

theorem webhook_replay_convergent_counterexample:
  "code failureEvent \<noteq> ''00''
   \<and> findOne (byOrderCode (orderCode failureEvent)) (payments exampleStore) = Some examplePayment
   \<and> bookingRef examplePayment = Some ''42''
   \<and> bookings (snd (handleWebhook (exampleEnv\<lparr>now := 1762117260000\<rparr>) failureEvent
         (snd (handleWebhook exampleEnv failureEvent exampleStore))))
       \<noteq> bookings (snd (handleWebhook exampleEnv failureEvent exampleStore))"
  using replay_example example_lookup(2,4)
  by (simp add: failureEvent_def exampleBooking_def)

subsection \<open>cancelPayment and createPaymentLink\<close>

lemma cancelPayment_cascade:
  assumes "paymentRequests_cancel e oc = Inr c"
    and "findOne (byOrderCode oc) (payments st) = Some p"
    and "bookingRef p = Some b"
    and "throws e \<inter> {PaymentFindOne, PaymentUpdate} = {}"
  shows "cancelPayment e oc st =
     (case cancelCascade e b
        (st\<lparr>payments := updateWhere (byOrderCode oc)
              (setPaymentStatus PaymentStatus_CANCELLED) (payments st)\<rparr>) of
        (Some f, st2) \<Rightarrow> (Inl f, st2)
      | (None, st2) \<Rightarrow> (Inr (cancelResponse c oc), st2))"
  using assms by (simp add: cancelPayment_def throwsAt_def Let_def)

lemma cancelCascade_payments: "payments (snd (cancelCascade e b st)) = payments st"
  by (simp add: cancelCascade_def Let_def split: list.split)

lemma cancelCascade_booking_fails:
  assumes "BookingUpdate \<in> throws e"
  shows "cancelCascade e b st = (Some (Thrown BookingUpdate), st)"
  using assms by (simp add: cancelCascade_def throwsAt_def)

lemma cancelCascade_bookings:
  assumes "BookingUpdate \<notin> throws e"
  shows "bookings (snd (cancelCascade e b st))
       = updateWhere (byBookingId b) (markCancelled (now e)) (bookings st)"
  using assms by (simp add: cancelCascade_def throwsAt_def Let_def split: list.split)

lemma cancelCascade_seat_fails:
  assumes "BookingUpdate \<notin> throws e" and "SeatFind \<in> throws e \<or> SeatUpdate \<in> throws e"
  shows "fst (cancelCascade e b st) \<noteq> None"
    and "seatStatuses (snd (cancelCascade e b st)) = seatStatuses st"
    and "emitted (snd (cancelCascade e b st)) = emitted st"
  using assms by (auto simp: cancelCascade_def throwsAt_def Let_def)

lemma cancelCascade_seats:
  assumes "throws e \<inter> {BookingUpdate, SeatFind, SeatUpdate} = {}"
  shows "seatStatuses (snd (cancelCascade e b st))
       = updateWhere (seatOfBooking b) release (seatStatuses st)"
    and "NotifySeats \<in> throws e \<Longrightarrow> findWhere (seatOfBooking b) (seatStatuses st) \<noteq> [] \<Longrightarrow>
       fst (cancelCascade e b st) = Some (Thrown NotifySeats)
       \<and> emitted (snd (cancelCascade e b st)) = emitted st"
  using assms by (auto simp: cancelCascade_def throwsAt_def Let_def split: list.split)

lemma cancel_example:
  "cancelPayment (exampleEnv\<lparr>throws := {BookingUpdate}\<rparr>) 12345 exampleStore
     = (Inl (Thrown BookingUpdate),
        exampleStore\<lparr>payments := [examplePayment\<lparr>payment_status := PaymentStatus_CANCELLED\<rparr>]\<rparr>)"
proof -
  have x: "payments exampleStore = [examplePayment]" "payosOrderCode examplePayment = 12345"
    "paymentRequests_cancel exampleEnv 12345
     = Inr \<lparr>cancelled_id = Some ''link-1'', cancelled_orderCode = Some 12345,
            cancelled_amount = Some 500000, cancelled_status = Some ''CANCELLED''\<rparr>"
    by (simp_all add: example_defs)
  show ?thesis
    using example_lookup(3,4)
    by (simp add: cancelPayment_def cancelCascade_def throwsAt_def Let_def x
        updateWhere_def byOrderCode_def setPaymentStatus_def)
qed

text \<open>
  C7. \<open>cancelPayment\<close> for an order code with a Payment that has a Booking reference, once
  the provider has cancelled and the Payment was found and marked CANCELLED. The local
  steps run one after the other: the first one that throws ends the call with that
  exception and the later steps are not run, while what was written before stays. So the
  Payment is CANCELLED whatever throws later, a Booking update that throws leaves
  bookings, seats and notifications untouched, a seat lookup or seat update that throws
  leaves the Booking cancelled and the seats untouched, and a notification that throws
  leaves Payment, Booking and seats updated.
\<close>

theorem cancelPayment_sequential_steps:
  assumes "paymentRequests_cancel e oc = Inr c"
    and "findOne (byOrderCode oc) (payments st) = Some p"
    and "bookingRef p = Some b"
    and "throws e \<inter> {PaymentFindOne, PaymentUpdate} = {}"
  shows "payments (snd (cancelPayment e oc st))
           = updateWhere (byOrderCode oc) (setPaymentStatus PaymentStatus_CANCELLED) (payments st)
       \<and> (\<forall>q \<in> set (payments (snd (cancelPayment e oc st))).
             payosOrderCode q = oc \<longrightarrow> payment_status q = PaymentStatus_CANCELLED)
       \<and> (BookingUpdate \<in> throws e \<longrightarrow>
             fst (cancelPayment e oc st) = Inl (Thrown BookingUpdate)
           \<and> bookings (snd (cancelPayment e oc st)) = bookings st
           \<and> seatStatuses (snd (cancelPayment e oc st)) = seatStatuses st
           \<and> emitted (snd (cancelPayment e oc st)) = emitted st)
       \<and> (BookingUpdate \<notin> throws e \<longrightarrow>
             bookings (snd (cancelPayment e oc st))
               = updateWhere (byBookingId b) (markCancelled (now e)) (bookings st))
       \<and> (BookingUpdate \<notin> throws e \<and> (SeatFind \<in> throws e \<or> SeatUpdate \<in> throws e) \<longrightarrow>
             (\<exists>f. fst (cancelPayment e oc st) = Inl f)
           \<and> seatStatuses (snd (cancelPayment e oc st)) = seatStatuses st
           \<and> emitted (snd (cancelPayment e oc st)) = emitted st)
       \<and> (throws e \<inter> {BookingUpdate, SeatFind, SeatUpdate} = {} \<longrightarrow>
             seatStatuses (snd (cancelPayment e oc st))
               = updateWhere (seatOfBooking b) release (seatStatuses st)
           \<and> (NotifySeats \<in> throws e \<and> findWhere (seatOfBooking b) (seatStatuses st) \<noteq> [] \<longrightarrow>
                 fst (cancelPayment e oc st) = Inl (Thrown NotifySeats)
               \<and> emitted (snd (cancelPayment e oc st)) = emitted st))"
proof -
  let ?st1 = "st\<lparr>payments := updateWhere (byOrderCode oc)
              (setPaymentStatus PaymentStatus_CANCELLED) (payments st)\<rparr>"
  obtain x st2 where cc: "cancelCascade e b ?st1 = (x, st2)"
    by (cases "cancelCascade e b ?st1")
  have run: "cancelPayment e oc st =
      (case x of Some f \<Rightarrow> (Inl f, st2) | None \<Rightarrow> (Inr (cancelResponse c oc), st2))"
    unfolding cancelPayment_cascade [OF assms] cc by (simp split: option.split)
  have st2: "snd (cancelPayment e oc st) = st2" unfolding run by (simp split: option.split)
  have res: "fst (cancelPayment e oc st) = Inl f" if "x = Some f" for f
    unfolding run using that by simp
  have P: "payments st2 = updateWhere (byOrderCode oc)
      (setPaymentStatus PaymentStatus_CANCELLED) (payments st)"
    using cancelCascade_payments [of e b ?st1] cc by simp
  have pays: "\<forall>q \<in> set (payments st2). payosOrderCode q = oc \<longrightarrow>
      payment_status q = PaymentStatus_CANCELLED"
    unfolding P using updateWhere_matching [of "\<lambda>q. payment_status q = PaymentStatus_CANCELLED"
        "setPaymentStatus PaymentStatus_CANCELLED" "byOrderCode oc" "payments st"]
    by (simp add: setPaymentStatus_def byOrderCode_def)
  have bf: "fst (cancelPayment e oc st) = Inl (Thrown BookingUpdate)
           \<and> bookings st2 = bookings st \<and> seatStatuses st2 = seatStatuses st
           \<and> emitted st2 = emitted st"
    if "BookingUpdate \<in> throws e"
    using cancelCascade_booking_fails [OF that, of b ?st1] cc res by auto
  have bk: "bookings st2 = updateWhere (byBookingId b) (markCancelled (now e)) (bookings st)"
    if "BookingUpdate \<notin> throws e"
    using cancelCascade_bookings [OF that, of b ?st1] cc by simp
  have sf: "(\<exists>f. fst (cancelPayment e oc st) = Inl f)
           \<and> seatStatuses st2 = seatStatuses st \<and> emitted st2 = emitted st"
    if "BookingUpdate \<notin> throws e \<and> (SeatFind \<in> throws e \<or> SeatUpdate \<in> throws e)"
    using cancelCascade_seat_fails [of e b ?st1] that cc res by auto
  have ss: "seatStatuses st2 = updateWhere (seatOfBooking b) release (seatStatuses st)
           \<and> (NotifySeats \<in> throws e \<and> findWhere (seatOfBooking b) (seatStatuses st) \<noteq> [] \<longrightarrow>
                 fst (cancelPayment e oc st) = Inl (Thrown NotifySeats)
               \<and> emitted st2 = emitted st)"
    if "throws e \<inter> {BookingUpdate, SeatFind, SeatUpdate} = {}"
    using cancelCascade_seats [OF that, of b ?st1] cc res by (auto simp: updateWhere_def findWhere_def)
  from P pays bf bk sf ss show ?thesis unfolding st2 by blast
qed

theorem cancelPayment_sequential_steps_witness:
  "paymentRequests_cancel (exampleEnv\<lparr>throws := {NotifySeats}\<rparr>) 12345
     = Inr \<lparr>cancelled_id = Some ''link-1'', cancelled_orderCode = Some 12345,
            cancelled_amount = Some 500000, cancelled_status = Some ''CANCELLED''\<rparr>
   \<and> findOne (byOrderCode 12345) (payments exampleStore) = Some examplePayment
   \<and> bookingRef examplePayment = Some ''42''
   \<and> throws (exampleEnv\<lparr>throws := {NotifySeats}\<rparr>) \<inter> {PaymentFindOne, PaymentUpdate} = {}
   \<and> throws (exampleEnv\<lparr>throws := {NotifySeats}\<rparr>) \<inter> {BookingUpdate, SeatFind, SeatUpdate} = {}
   \<and> NotifySeats \<in> throws (exampleEnv\<lparr>throws := {NotifySeats}\<rparr>)
   \<and> fst (cancelPayment (exampleEnv\<lparr>throws := {NotifySeats}\<rparr>) 12345 exampleStore)
        = Inl (Thrown NotifySeats)
   \<and> payments (snd (cancelPayment (exampleEnv\<lparr>throws := {NotifySeats}\<rparr>) 12345 exampleStore))
        = [examplePayment\<lparr>payment_status := PaymentStatus_CANCELLED\<rparr>]
   \<and> bookings (snd (cancelPayment (exampleEnv\<lparr>throws := {NotifySeats}\<rparr>) 12345 exampleStore))
        = [exampleBooking\<lparr>booking_status := BookingStatus_CANCELLED,
                            cancelledAt := Some 1762117200123\<rparr>]
   \<and> seatStatuses (snd (cancelPayment (exampleEnv\<lparr>throws := {NotifySeats}\<rparr>) 12345 exampleStore))
        = [release (exampleSeat ''s1'' ''A''), release (exampleSeat ''s2'' ''B'')]"
proof -
  let ?e = "exampleEnv\<lparr>throws := {NotifySeats}\<rparr>"
  have c: "paymentRequests_cancel ?e 12345
     = Inr \<lparr>cancelled_id = Some ''link-1'', cancelled_orderCode = Some 12345,
            cancelled_amount = Some 500000, cancelled_status = Some ''CANCELLED''\<rparr>"
    by (simp add: exampleEnv_def)
  have t: "throws ?e \<inter> {PaymentFindOne, PaymentUpdate} = {}"
    "throws ?e \<inter> {BookingUpdate, SeatFind, SeatUpdate} = {}"
    "NotifySeats \<in> throws ?e" "BookingUpdate \<notin> throws ?e"
    by simp_all
  have x: "payments exampleStore = [examplePayment]" "bookings exampleStore = [exampleBooking]"
    "seatStatuses exampleStore = [exampleSeat ''s1'' ''A'', exampleSeat ''s2'' ''B'']"
    "payosOrderCode examplePayment = 12345" "booking_id exampleBooking = ''42''"
    "seat_bookingId (exampleSeat ''s1'' ''A'') = Some ''42''"
    "seat_bookingId (exampleSeat ''s2'' ''B'') = Some ''42''"
    "now ?e = 1762117200123"
    by (simp_all add: example_defs)
  from cancelPayment_sequential_steps [OF c example_lookup(3) example_lookup(4) t(1)]
    c t example_lookup
  show ?thesis
    by (simp add: x updateWhere_def findWhere_def byOrderCode_def byBookingId_def
        seatOfBooking_def setPaymentStatus_def markCancelled_def)
qed

theorem cancelPayment_sequential_steps_counterexample:
  "findOne (byOrderCode 12345) (payments exampleStore) = Some examplePayment
   \<and> bookingRef examplePayment = Some ''42''
   \<and> SeatUpdate \<notin> throws (exampleEnv\<lparr>throws := {BookingUpdate}\<rparr>)
   \<and> fst (cancelPayment (exampleEnv\<lparr>throws := {BookingUpdate}\<rparr>) 12345 exampleStore)
       = Inl (Thrown BookingUpdate)
   \<and> seatStatuses (snd (cancelPayment (exampleEnv\<lparr>throws := {BookingUpdate}\<rparr>) 12345
         exampleStore))
       = [exampleSeat ''s1'' ''A'', exampleSeat ''s2'' ''B'']"
  using cancel_example example_lookup(3,4)
  by (simp add: exampleStore_def)

text \<open>
  C8. \<open>createPaymentLink\<close> stores a Payment row only after the provider has answered:
  when the provider call throws, that exception is the outcome and the store is as it
  was; whenever the store has changed, the provider call returned a link and the change is
  one new PENDING row for the generated order code.
\<close>

theorem createPaymentLink_persists_after_provider:
  "(\<forall>oc f. generateOrderCode (now e) (random e) = Some oc
           \<and> paymentRequests_create e (paymentDataOf e oc dto) = Inl f \<longrightarrow>
           createPaymentLink e dto st = (Inl f, st))
   \<and> (snd (createPaymentLink e dto st) \<noteq> st \<longrightarrow>
        (\<exists>oc paymentLink.
            generateOrderCode (now e) (random e) = Some oc
          \<and> paymentRequests_create e (paymentDataOf e oc dto) = Inr paymentLink
          \<and> snd (createPaymentLink e dto st) =
              st\<lparr>payments := payments st @
                [\<lparr>payment_id = generatedId e,
                  payment_bookingId = dto_bookingId dto,
                  provider = ''PAYOS'',
                  transactionRef = orText (paymentLinkId paymentLink) [],
                  payosOrderCode = oc,
                  payment_amount = dto_amount dto,
                  payment_status = PaymentStatus_PENDING\<rparr>]\<rparr>))"
proof (intro conjI allI impI)
  fix oc f
  assume "generateOrderCode (now e) (random e) = Some oc
      \<and> paymentRequests_create e (paymentDataOf e oc dto) = Inl f"
  then show "createPaymentLink e dto st = (Inl f, st)"
    by (simp add: createPaymentLink_def)
next
  assume changed: "snd (createPaymentLink e dto st) \<noteq> st"
  obtain oc where oc: "generateOrderCode (now e) (random e) = Some oc"
    using generateOrderCode_number [of "now e" "random e"] by auto
  show "\<exists>oc paymentLink.
            generateOrderCode (now e) (random e) = Some oc
          \<and> paymentRequests_create e (paymentDataOf e oc dto) = Inr paymentLink
          \<and> snd (createPaymentLink e dto st) =
              st\<lparr>payments := payments st @
                [\<lparr>payment_id = generatedId e,
                  payment_bookingId = dto_bookingId dto,
                  provider = ''PAYOS'',
                  transactionRef = orText (paymentLinkId paymentLink) [],
                  payosOrderCode = oc,
                  payment_amount = dto_amount dto,
                  payment_status = PaymentStatus_PENDING\<rparr>]\<rparr>"
  proof (cases "paymentRequests_create e (paymentDataOf e oc dto)")
    case (Inl f)
    with oc changed show ?thesis by (simp add: createPaymentLink_def)
  next
    case (Inr paymentLink)
    with oc changed have "PaymentSave \<notin> throws e"
      by (auto simp: createPaymentLink_def throwsAt_def)
    with oc Inr show ?thesis by (simp add: createPaymentLink_def throwsAt_def Let_def)
  qed
qed

theorem createPaymentLink_persists_after_provider_witness:
  "generateOrderCode (now exampleEnv) (random exampleEnv) = Some 123007
   \<and> paymentRequests_create exampleEnv (paymentDataOf exampleEnv 123007 exampleDto)
       = Inl (ProviderFault ''ECONNRESET'')
   \<and> createPaymentLink exampleEnv exampleDto exampleStore
       = (Inl (ProviderFault ''ECONNRESET''), exampleStore)
   \<and> snd (createPaymentLink (exampleEnv\<lparr>paymentRequests_create := \<lambda>_. Inr exampleLink\<rparr>)
          exampleDto exampleStore) \<noteq> exampleStore
   \<and> (\<exists>oc paymentLink.
         paymentRequests_create (exampleEnv\<lparr>paymentRequests_create := \<lambda>_. Inr exampleLink\<rparr>)
           (paymentDataOf (exampleEnv\<lparr>paymentRequests_create := \<lambda>_. Inr exampleLink\<rparr>) oc
              exampleDto) = Inr paymentLink)"
proof -
  let ?e = "exampleEnv\<lparr>paymentRequests_create := \<lambda>_. Inr exampleLink\<rparr>"
  have g: "generateOrderCode (now exampleEnv) (random exampleEnv) = Some 123007"
    using generateOrderCode_value [of 1762117200123 7] by (simp add: exampleEnv_def)
  have p: "paymentRequests_create exampleEnv (paymentDataOf exampleEnv 123007 exampleDto)
       = Inl (ProviderFault ''ECONNRESET'')"
    by (simp add: exampleEnv_def)
  have t: "throws exampleEnv = {}" by (simp add: exampleEnv_def)
  have "payments (snd (createPaymentLink ?e exampleDto exampleStore)) \<noteq> payments exampleStore"
    by (simp add: createPaymentLink_def g t throwsAt_def Let_def)
  then have c: "snd (createPaymentLink ?e exampleDto exampleStore) \<noteq> exampleStore"
    by auto
  from createPaymentLink_persists_after_provider [of exampleEnv exampleDto exampleStore] g p
  have first: "createPaymentLink exampleEnv exampleDto exampleStore
       = (Inl (ProviderFault ''ECONNRESET''), exampleStore)"
    by blast
  from createPaymentLink_persists_after_provider [of ?e exampleDto exampleStore] c
  have second: "\<exists>oc paymentLink.
      paymentRequests_create ?e (paymentDataOf ?e oc exampleDto) = Inr paymentLink"
    by blast
  from g p first c second show ?thesis by blast
qed

end
